theory Spec2Isabelle
  imports Complex_Main "HOL-Library.Sublist" "HOL-Library.Multiset"
begin

text \<open>
  The chunking, reconstruction and search core of the memory bank server: the recursive
  text splitter of \<open>EmbeddingService\<close>, the chunk methods of \<open>DatabaseService\<close>,
  \<open>MemoryBankService.updateFileContent\<close> and \<open>getFileContent\<close>, \<open>SearchService.search\<close>
  and the schema of the search tool. Services are functions from a world (the ChromaDB
  collections and a record of the external calls) to a result and a world; an exception
  is the result \<open>Inl\<close> of an \<open>McpError\<close>.
\<close>

section \<open>JavaScript strings and arrays\<close>

text \<open>
  A JavaScript string is modelled as a \<^typ>\<open>string\<close>, one \<^typ>\<open>char\<close> per code unit, so
  \<open>text.length\<close> is \<^const>\<open>length\<close>. White space is the ASCII part of what
  \<open>String.prototype.trim\<close> strips: tab, line feed, vertical tab, form feed, carriage return
  and space.
\<close>

definition isWhiteSpace :: "char \<Rightarrow> bool" where
  "isWhiteSpace c = (c \<in> {CHR 0x09, CHR 0x0A, CHR 0x0B, CHR 0x0C, CHR 0x0D, CHR '' ''})"

definition js_trim :: "string \<Rightarrow> string" where
  "js_trim s = rev (dropWhile isWhiteSpace (rev (dropWhile isWhiteSpace s)))"

text \<open>
  \<open>Array.prototype.slice(start, end)\<close>: a negative index counts from the end, both indices
  are clamped to the array.
\<close>

definition js_slice :: "'a list \<Rightarrow> int \<Rightarrow> int \<Rightarrow> 'a list" where
  "js_slice xs start end =
     (let len = int (length xs);
          k = (if start < 0 then max (len + start) 0 else min start len);
          final = (if end < 0 then max (len + end) 0 else min end len)
      in take (nat (final - k)) (drop (nat k) xs))"

text \<open>
  \<open>text.split(separator)\<close> cuts at every occurrence of the separator, scanning from the
  left; the pieces never contain the separator and there is always at least one piece.
  With the empty separator it yields the code units one by one.
\<close>

fun split_from :: "string \<Rightarrow> string \<Rightarrow> string list" where
  "split_from separator [] = [[]]"
| "split_from separator (c # cs) =
     (if prefix separator (c # cs)
      then [] # split_from separator (drop (length separator - 1) cs)
      else (case split_from separator cs of
              [] \<Rightarrow> [[c]]
            | piece # pieces \<Rightarrow> (c # piece) # pieces))"

definition js_split :: "string \<Rightarrow> string \<Rightarrow> string list" where
  "js_split text separator =
     (if separator = [] then map (\<lambda>c. [c]) text else split_from separator text)"

section \<open>EmbeddingService: the recursive text splitter\<close>

record TextSplitterOptions =
  chunkSize :: int
  chunkOverlap :: int

text \<open>
  The tokenizer is the library's \<open>PreTrainedTokenizer\<close>; the splitter uses its
  \<open>encode\<close> and its \<open>decode\<close> (called with \<open>skip_special_tokens: true\<close>), which are
  taken as they come.
\<close>

record PreTrainedTokenizer =
  encode :: "string \<Rightarrow> nat list"
  decode :: "nat list \<Rightarrow> string"

text \<open>
  The base case of \<open>_splitTextWithTokenizer\<close>, the loop
  \<^verbatim>\<open>for (let i = 0; i < tokenIds.length; i += chunkSize - chunkOverlap)\<close>.
  Nothing in the loop forces the step to be positive, so it is a partial function:
  \<^const>\<open>None\<close> is a loop that never ends.
\<close>

partial_function (option) slideWindow ::
  "TextSplitterOptions \<Rightarrow> PreTrainedTokenizer \<Rightarrow> nat list \<Rightarrow> int \<Rightarrow> string list \<Rightarrow> string list option"
where
  "slideWindow opts tk tokenIds i finalChunks =
     (if i < int (length tokenIds)
      then (let chunkTokenIds = js_slice tokenIds i (i + chunkSize opts)
            in slideWindow opts tk tokenIds (i + (chunkSize opts - chunkOverlap opts))
                 (if length chunkTokenIds > 0 then finalChunks @ [decode tk chunkTokenIds]
                  else finalChunks))
      else Some finalChunks)"

declare slideWindow.simps [code]

text \<open>
  The loop over the pieces of one separator level. The state is
  \<open>(finalChunks, currentChunk, currentChunkTokens)\<close>; \<open>recurse\<close> is the call of
  \<open>_splitTextWithTokenizer\<close> with the remaining separators, and \<open>i\<close> the index of the
  piece at the head of the list.
\<close>

fun mergeSplits ::
  "TextSplitterOptions \<Rightarrow> PreTrainedTokenizer \<Rightarrow> string \<Rightarrow> (string \<Rightarrow> string list option) \<Rightarrow>
   nat \<Rightarrow> string list \<Rightarrow> string list \<times> string \<times> int \<Rightarrow> (string list \<times> string \<times> int) option"
where
  "mergeSplits opts tk separator recurse i [] st = Some st"
| "mergeSplits opts tk separator recurse i (split # rest) (finalChunks, currentChunk, currentChunkTokens) =
     (let splitWithSeparator = (if i > 0 \<and> separator \<noteq> [] then separator @ split else split);
          splitTokens = int (length (encode tk splitWithSeparator))
      in if splitTokens > chunkSize opts then
           (case recurse split of
              None \<Rightarrow> None
            | Some subChunks \<Rightarrow>
                mergeSplits opts tk separator recurse (Suc i) rest (finalChunks @ subChunks, [], 0))
         else if currentChunkTokens + splitTokens \<le> chunkSize opts then
           mergeSplits opts tk separator recurse (Suc i) rest
             (finalChunks, currentChunk @ splitWithSeparator, currentChunkTokens + splitTokens)
         else
           (let finalChunks1 = (if length (js_trim currentChunk) > 0 then finalChunks @ [currentChunk]
                                else finalChunks);
                overlapStartIndex = max 0 (int (length currentChunk) - chunkOverlap opts * 4);
                overlapText = drop (nat overlapStartIndex) currentChunk;
                currentChunk1 = overlapText @ splitWithSeparator;
                currentChunkTokens1 = int (length (encode tk currentChunk1))
            in if currentChunkTokens1 > chunkSize opts then
                 (case recurse splitWithSeparator of
                    None \<Rightarrow> None
                  | Some subChunks \<Rightarrow>
                      mergeSplits opts tk separator recurse (Suc i) rest (finalChunks1 @ subChunks, [], 0))
               else mergeSplits opts tk separator recurse (Suc i) rest
                      (finalChunks1, currentChunk1, currentChunkTokens1)))"

text \<open>
  \<open>_splitTextWithTokenizer(text, options, tokenizer, separators)\<close>. With no separator
  left, \<open>separators[0]\<close> is \<open>undefined\<close>, \<open>text.split(undefined)\<close> is the text alone,
  and a text over the budget recurses on itself without end: that is \<^const>\<open>None\<close>.
\<close>

fun splitTextWithTokenizer ::
  "string \<Rightarrow> TextSplitterOptions \<Rightarrow> PreTrainedTokenizer \<Rightarrow> string list \<Rightarrow> string list option"
where
  "splitTextWithTokenizer text opts tk [] =
     (if int (length (encode tk text)) > chunkSize opts then None
      else Some (if length (js_trim text) > 0 then [text] else []))"
| "splitTextWithTokenizer text opts tk (separator # remainingSeparators) =
     (if separator = [] then
        (if length text = 0 then Some []
         else slideWindow opts tk (encode tk text) 0 [])
      else
        (case mergeSplits opts tk separator
                (\<lambda>s. splitTextWithTokenizer s opts tk remainingSeparators)
                0 (js_split text separator) ([], [], 0) of
           None \<Rightarrow> None
         | Some (finalChunks, currentChunk, currentChunkTokens) \<Rightarrow>
             Some (if length (js_trim currentChunk) > 0 then finalChunks @ [currentChunk]
                   else finalChunks)))"

text \<open>The default value of the parameter \<open>separators\<close>.\<close>

definition defaultSeparators :: "string list" where
  "defaultSeparators = [[CHR 0x0A, CHR 0x0A], [CHR 0x0A], ''. '', ''? '', ''! '', '' '', '''']"

section \<open>Errors\<close>

text \<open>
  Every error the services raise is an \<open>McpError(code, message)\<close>. The messages are
  kept apart by constructor, with the values the source interpolates as arguments:
  \<^item> \<open>ProjectNotFound id\<close>: "Project with ID '...' not found."
  \<^item> \<open>FileNameAndContentEmpty\<close>: "File name and content cannot be empty."
  \<^item> \<open>NoContentFound file project\<close>: "No content found for file '...' in project '...'."
  \<^item> \<open>MissingSearchParameters\<close>: "Missing required search parameters."
  \<^item> \<open>InvalidSearchType t\<close>: "Invalid search type: ..."
  \<^item> \<open>InvalidToolArguments\<close>: the server's rejection of arguments that fail the tool's schema
  \<^item> \<open>ChunkingNotReady\<close>: "Embedding service/tokenizer is not ready for chunking."
  \<^item> \<open>EmbeddingNotReady\<close>: "Embedding service pipeline is not ready."
  \<^item> \<open>EmbeddingGenerationFailed m\<close>: "Embedding generation failed: ..."
  \<^item> \<open>DbNotInitialized\<close>, \<open>DbNotProperlyInitialized\<close>: the two messages of \<open>ensureInitialized\<close>
  \<^item> \<open>DbError op m\<close>: "DB error ...: ...", one \<open>op\<close> per database method
  \<^item> \<open>DbErrorGettingFileChunks\<close>: "Database error getting file chunks."
  \<^item> \<open>ProjectExistenceCheckFailed\<close>: "Database error checking project existence."
  \<^item> \<open>InvalidProjectIdForTimestamp\<close>: "Invalid project ID provided for timestamp update."
  \<^item> \<open>UpdateLastModifiedFailed\<close>: "Failed to update project last modified time due to
    database error."
  \<^item> \<open>External m\<close>: the message of an error thrown by a library (ChromaDB client, pipeline).
\<close>

datatype ErrorCode = InvalidParams | InternalError

datatype DbOp = FindingProjectById | UpdatingProjectTimestamp | DeletingFileChunks
  | InsertingChunk | SemanticSearch | KeywordSearch

datatype Message =
    ProjectNotFound string
  | FileNameAndContentEmpty
  | NoContentFound string string
  | MissingSearchParameters
  | InvalidSearchType string
  | InvalidToolArguments
  | ChunkingNotReady
  | EmbeddingNotReady
  | EmbeddingGenerationFailed Message
  | DbNotInitialized
  | DbNotProperlyInitialized
  | DbError DbOp Message
  | DbErrorGettingFileChunks
  | ProjectExistenceCheckFailed
  | InvalidProjectIdForTimestamp
  | UpdateLastModifiedFailed
  | External string

datatype McpError = McpError (code: ErrorCode) (message: Message)

section \<open>EmbeddingService: chunkText and generateEmbedding\<close>

text \<open>
  The service holds the feature-extraction pipeline and the tokenizer, both \<open>null\<close> until
  \<open>initialize\<close> has run. A call of the pipeline either throws (or returns an output without
  data), which is \<open>Inl\<close> with the message, or yields the embedding vector.
\<close>

record EmbeddingService =
  isInitialized :: bool
  extractor :: "(string \<Rightarrow> string + real list) option"
  tokenizer :: "PreTrainedTokenizer option"

text \<open>
  \<open>chunkText(content)\<close>. The outer \<^typ>\<open>'a option\<close> is the splitter's: \<^const>\<open>None\<close> is a call
  that does not return.
\<close>

definition chunkText :: "EmbeddingService \<Rightarrow> string \<Rightarrow> (McpError + string list) option" where
  "chunkText es content =
     (case tokenizer es of
        None \<Rightarrow> Some (Inl (McpError InternalError ChunkingNotReady))
      | Some tk \<Rightarrow>
          if \<not> isInitialized es then Some (Inl (McpError InternalError ChunkingNotReady))
          else map_option Inr
                 (splitTextWithTokenizer content \<lparr>chunkSize = 450, chunkOverlap = 50\<rparr> tk
                    defaultSeparators))"

section \<open>The world outside the services\<close>

text \<open>
  The ChromaDB collections, as lists of rows in the store's order. A row of the chunk
  collection has an id, an embedding, and metadata and a document that the client types as
  nullable.
\<close>

datatype ProjectMetadata = ProjectMetadata
  (pm_project_id: string) (pm_project_name: string) (pm_created_at: string)
  (pm_last_modified_at: string)

record ChunkMetadata =
  chunk_id :: string
  project_id :: string
  file_name :: string
  chunk_index :: int
  created_at :: string
  updated_at :: string

record ChunkRow =
  row_id :: string
  row_embedding :: "real list"
  row_metadata :: "ChunkMetadata option"
  row_document :: "string option"

text \<open>The requests sent to ChromaDB and the calls of the embedding pipeline.\<close>

datatype ExternalCall =
    ProjectsGet string
  | ProjectsUpdate string
  | ChunksGet
  | ChunksDelete "string list"
  | ChunksAdd string
  | ChunksQuery
  | ExtractorCall string

text \<open>
  \<open>trace\<close> records every external call in order. \<open>faults\<close> decides which requests to
  ChromaDB throw: the request issued when \<open>n\<close> calls have been recorded throws the error
  \<open>faults n\<close> if there is one. \<open>distanceFn\<close> is the distance function of the chunk
  collection, \<open>localeCompare\<close> the platform's \<open>String.prototype.localeCompare\<close>,
  \<open>uuidv4\<close> and \<open>now\<close> the sources of identifiers and of time stamps.
\<close>

record World =
  projectsCollection :: "(string \<times> ProjectMetadata option) list"
  chunksCollection :: "ChunkRow list"
  dbIsInitialized :: bool
  dbHandles :: bool
  faults :: "nat \<Rightarrow> string option"
  trace :: "ExternalCall list"
  distanceFn :: "real list \<Rightarrow> real list \<Rightarrow> real"
  localeCompare :: "string \<Rightarrow> string \<Rightarrow> int"
  uuidv4 :: "nat \<Rightarrow> string"
  now :: string

definition request :: "ExternalCall \<Rightarrow> World \<Rightarrow> (string + unit) \<times> World" where
  "request c w =
     (case faults w (length (trace w)) of
        Some msg \<Rightarrow> (Inl msg, w\<lparr>trace := trace w @ [c]\<rparr>)
      | None \<Rightarrow> (Inr (), w\<lparr>trace := trace w @ [c]\<rparr>))"

text \<open>
  \<open>generateEmbedding(text)\<close>: the pipeline is called once the service is known to be
  ready; whatever goes wrong in the call is rethrown as an internal error.
\<close>

definition generateEmbedding ::
  "EmbeddingService \<Rightarrow> string \<Rightarrow> World \<Rightarrow> (McpError + real list) \<times> World" where
  "generateEmbedding es txt w =
     (case extractor es of
        None \<Rightarrow> (Inl (McpError InternalError EmbeddingNotReady), w)
      | Some pipeline \<Rightarrow>
          if \<not> isInitialized es then (Inl (McpError InternalError EmbeddingNotReady), w)
          else (case pipeline txt of
                  Inl msg \<Rightarrow>
                    (Inl (McpError InternalError (EmbeddingGenerationFailed (External msg))),
                     w\<lparr>trace := trace w @ [ExtractorCall txt]\<rparr>)
                | Inr v \<Rightarrow> (Inr v, w\<lparr>trace := trace w @ [ExtractorCall txt]\<rparr>)))"

text \<open>
  \<open>Promise.all(items.map(f))\<close>: every call is started, in order, whether or not an
  earlier one fails; the result is the list of all results, or the error of the first call
  (in array order) that failed.
\<close>

fun promiseAll ::
  "('a \<Rightarrow> World \<Rightarrow> (McpError + 'b) \<times> World) \<Rightarrow> 'a list \<Rightarrow> World \<Rightarrow> (McpError + 'b list) \<times> World"
where
  "promiseAll f [] w = (Inr [], w)"
| "promiseAll f (x # xs) w =
     (case f x w of
        (r, w1) \<Rightarrow>
          (case promiseAll f xs w1 of
             (rs, w2) \<Rightarrow>
               (case r of
                  Inl e \<Rightarrow> (Inl e, w2)
                | Inr y \<Rightarrow> (case rs of Inl e \<Rightarrow> (Inl e, w2) | Inr ys \<Rightarrow> (Inr (y # ys), w2)))))"

section \<open>JavaScript sorting\<close>

text \<open>
  \<open>Array.prototype.sort(compare)\<close> is stable: \<open>a\<close> stays before \<open>b\<close> unless
  \<open>compare(a, b) > 0\<close> puts it behind. Insertion from the right is such a sort.
\<close>

fun insort_by :: "('a \<Rightarrow> 'a \<Rightarrow> real) \<Rightarrow> 'a \<Rightarrow> 'a list \<Rightarrow> 'a list" where
  "insort_by compare x [] = [x]"
| "insort_by compare x (y # ys) =
     (if compare x y \<le> 0 then x # y # ys else y # insort_by compare x ys)"

definition js_sort :: "('a \<Rightarrow> 'a \<Rightarrow> real) \<Rightarrow> 'a list \<Rightarrow> 'a list" where
  "js_sort compare xs = foldr (insort_by compare) xs []"

section \<open>DatabaseService\<close>

record Project =
  projectId :: string
  projectName :: string
  createdAt :: string
  lastModifiedAt :: string

record MemoryBankChunk =
  chunkId :: string
  chunkProjectId :: string
  fileName :: string
  chunkIndex :: int
  chunkText_of :: string
  embedding :: "real list option"
  chunkCreatedAt :: string
  chunkUpdatedAt :: string

record DatabaseSearchResult = MemoryBankChunk +
  score :: "real option"

definition ensureInitialized :: "World \<Rightarrow> McpError + unit" where
  "ensureInitialized w =
     (if \<not> dbIsInitialized w \<or> \<not> dbHandles w then
        (if \<not> dbIsInitialized w then Inl (McpError InternalError DbNotInitialized)
         else Inl (McpError InternalError DbNotProperlyInitialized))
      else Inr ())"

definition findProjectById :: "string \<Rightarrow> World \<Rightarrow> (McpError + Project option) \<times> World" where
  "findProjectById pid w =
     (case ensureInitialized w of
        Inl e \<Rightarrow> (Inl e, w)
      | Inr _ \<Rightarrow>
          (case request (ProjectsGet pid) w of
             (Inl msg, w1) \<Rightarrow> (Inl (McpError InternalError (DbError FindingProjectById (External msg))), w1)
           | (Inr _, w1) \<Rightarrow>
               (case take 1 (filter (\<lambda>r. fst r = pid) (projectsCollection w1)) of
                  [] \<Rightarrow> (Inr None, w1)
                | r # _ \<Rightarrow>
                    (case snd r of
                       None \<Rightarrow> (Inr None, w1)
                     | Some meta \<Rightarrow>
                         (Inr (Some \<lparr>projectId = fst r, projectName = pm_project_name meta,
                                     createdAt = pm_created_at meta,
                                     lastModifiedAt = pm_last_modified_at meta\<rparr>), w1)))))"

text \<open>
  \<open>updateProjectLastModified\<close>: the lookup and the update sit in one \<open>try\<close>; whatever
  either throws is rethrown as "DB error updating project timestamp: ...".
\<close>

definition updateProjectLastModified :: "string \<Rightarrow> World \<Rightarrow> (McpError + unit) \<times> World" where
  "updateProjectLastModified pid w =
     (case ensureInitialized w of
        Inl e \<Rightarrow> (Inl e, w)
      | Inr _ \<Rightarrow>
          (case findProjectById pid w of
             (Inl e, w1) \<Rightarrow> (Inl (McpError InternalError (DbError UpdatingProjectTimestamp (message e))), w1)
           | (Inr None, w1) \<Rightarrow> (Inr (), w1)
           | (Inr (Some existing), w1) \<Rightarrow>
               (case request (ProjectsUpdate pid) w1 of
                  (Inl msg, w2) \<Rightarrow>
                    (Inl (McpError InternalError (DbError UpdatingProjectTimestamp (External msg))), w2)
                | (Inr _, w2) \<Rightarrow>
                    (Inr (),
                     w2\<lparr>projectsCollection :=
                          map (\<lambda>r. if fst r = pid
                                    then (fst r, Some (ProjectMetadata (projectId existing)
                                            (projectName existing) (createdAt existing) (now w2)))
                                    else r)
                            (projectsCollection w2)\<rparr>))))"

text \<open>The filter \<open>where: { project_id: projectId }\<close> of a \<open>get\<close>.\<close>

definition inProject :: "string \<Rightarrow> ChunkRow \<Rightarrow> bool" where
  "inProject pid r = (case row_metadata r of None \<Rightarrow> False | Some m \<Rightarrow> project_id m = pid)"

definition inFile :: "string \<Rightarrow> string \<Rightarrow> ChunkRow \<Rightarrow> bool" where
  "inFile pid fname r =
     (case row_metadata r of None \<Rightarrow> False | Some m \<Rightarrow> project_id m = pid \<and> file_name m = fname)"

definition deleteMemoryBankContentByFile ::
  "string \<Rightarrow> string \<Rightarrow> World \<Rightarrow> (McpError + bool) \<times> World" where
  "deleteMemoryBankContentByFile pid fname w =
     (case ensureInitialized w of
        Inl e \<Rightarrow> (Inl e, w)
      | Inr _ \<Rightarrow>
          (case request ChunksGet w of
             (Inl msg, w1) \<Rightarrow> (Inl (McpError InternalError (DbError DeletingFileChunks (External msg))), w1)
           | (Inr _, w1) \<Rightarrow>
               (let results = filter (inProject pid) (chunksCollection w1) in
                if length results = 0 then (Inr True, w1)
                else
                  (let idsToDelete =
                         map row_id
                           (filter (\<lambda>r. case row_metadata r of None \<Rightarrow> False
                                         | Some meta \<Rightarrow> file_name meta = fname) results)
                   in if length idsToDelete = 0 then (Inr True, w1)
                      else
                        (case request (ChunksDelete idsToDelete) w1 of
                           (Inl msg, w2) \<Rightarrow>
                             (Inl (McpError InternalError (DbError DeletingFileChunks (External msg))), w2)
                         | (Inr _, w2) \<Rightarrow>
                             (Inr True,
                              w2\<lparr>chunksCollection :=
                                   filter (\<lambda>r. row_id r \<notin> set idsToDelete) (chunksCollection w2)\<rparr>))))))"

definition insertMemoryBankChunk ::
  "string \<Rightarrow> string \<Rightarrow> int \<Rightarrow> string \<Rightarrow> real list \<Rightarrow> World \<Rightarrow> (McpError + MemoryBankChunk) \<times> World"
where
  "insertMemoryBankChunk pid fname idx txt embeddingVector w =
     (case ensureInitialized w of
        Inl e \<Rightarrow> (Inl e, w)
      | Inr _ \<Rightarrow>
          (let chunkId = uuidv4 w (length (trace w));
               metadata = \<lparr>chunk_id = chunkId, project_id = pid, file_name = fname, chunk_index = idx,
                           created_at = now w, updated_at = now w\<rparr>
           in case request (ChunksAdd chunkId) w of
                (Inl msg, w1) \<Rightarrow> (Inl (McpError InternalError (DbError InsertingChunk (External msg))), w1)
              | (Inr _, w1) \<Rightarrow>
                  (Inr \<lparr>chunkId = chunkId, chunkProjectId = pid, fileName = fname, chunkIndex = idx,
                         chunkText_of = txt, embedding = Some embeddingVector,
                         chunkCreatedAt = now w, chunkUpdatedAt = now w\<rparr>,
                   w1\<lparr>chunksCollection :=
                        chunksCollection w1 @
                          [\<lparr>row_id = chunkId, row_embedding = embeddingVector,
                            row_metadata = Some metadata, row_document = Some txt\<rparr>]\<rparr>)))"

text \<open>
  The \<open>ids.map(...).filter(c => c !== null)\<close> of \<open>getMemoryBankChunksByFile\<close>: a row
  without metadata or document is dropped.
\<close>

definition rowToChunk :: "ChunkRow \<Rightarrow> MemoryBankChunk option" where
  "rowToChunk r =
     (case (row_metadata r, row_document r) of
        (Some meta, Some doc) \<Rightarrow>
          Some \<lparr>chunkId = row_id r, chunkProjectId = project_id meta, fileName = file_name meta,
                chunkIndex = chunk_index meta, chunkText_of = doc,
                embedding = Some (row_embedding r),
                chunkCreatedAt = created_at meta, chunkUpdatedAt = updated_at meta\<rparr>
      | _ \<Rightarrow> None)"

definition getMemoryBankChunksByFile ::
  "string \<Rightarrow> string \<Rightarrow> World \<Rightarrow> (McpError + MemoryBankChunk list) \<times> World" where
  "getMemoryBankChunksByFile pid fname w =
     (case ensureInitialized w of
        Inl e \<Rightarrow> (Inl e, w)
      | Inr _ \<Rightarrow>
          (case request ChunksGet w of
             (Inl msg, w1) \<Rightarrow> (Inl (McpError InternalError DbErrorGettingFileChunks), w1)
           | (Inr _, w1) \<Rightarrow>
               (let results = filter (inFile pid fname) (chunksCollection w1) in
                if length results = 0 then (Inr [], w1)
                else
                  (Inr (js_sort (\<lambda>a b. real_of_int (chunkIndex a - chunkIndex b))
                          (List.map_filter rowToChunk results)), w1))))"

section \<open>ProjectService\<close>

definition projectExists :: "string \<Rightarrow> World \<Rightarrow> (McpError + bool) \<times> World" where
  "projectExists pid w =
     (if pid = [] then (Inr False, w)
      else (case findProjectById pid w of
              (Inl e, w1) \<Rightarrow> (Inl (McpError InternalError ProjectExistenceCheckFailed), w1)
            | (Inr project, w1) \<Rightarrow> (Inr (project \<noteq> None), w1)))"

definition updateLastModified :: "string \<Rightarrow> World \<Rightarrow> (McpError + unit) \<times> World" where
  "updateLastModified pid w =
     (if pid = [] then (Inl (McpError InvalidParams InvalidProjectIdForTimestamp), w)
      else (case updateProjectLastModified pid w of
              (Inl e, w1) \<Rightarrow> (Inl (McpError InternalError UpdateLastModifiedFailed), w1)
            | (Inr _, w1) \<Rightarrow> (Inr (), w1)))"

section \<open>MemoryBankService\<close>

text \<open>
  \<open>updateFileContent(projectId, fileName, content)\<close>. Every error that reaches the outer
  \<open>catch\<close> is an \<open>McpError\<close> and is rethrown as it is. The result is \<^const>\<open>None\<close> when
  the chunker does not return.
\<close>

definition updateFileContent ::
  "EmbeddingService \<Rightarrow> string \<Rightarrow> string \<Rightarrow> string \<Rightarrow> World \<Rightarrow> ((McpError + unit) \<times> World) option"
where
  "updateFileContent es pid fname content w =
     (case projectExists pid w of
        (Inl e, w1) \<Rightarrow> Some (Inl e, w1)
      | (Inr False, w1) \<Rightarrow> Some (Inl (McpError InvalidParams (ProjectNotFound pid)), w1)
      | (Inr True, w1) \<Rightarrow>
          if fname = [] \<or> content = [] then
            Some (Inl (McpError InvalidParams FileNameAndContentEmpty), w1)
          else
            (case chunkText es content of
               None \<Rightarrow> None
             | Some (Inl e) \<Rightarrow> Some (Inl e, w1)
             | Some (Inr chunks) \<Rightarrow>
                 if length chunks = 0 then
                   (case deleteMemoryBankContentByFile pid fname w1 of
                      (Inl e, w2) \<Rightarrow> Some (Inl e, w2)
                    | (Inr _, w2) \<Rightarrow>
                        (case updateLastModified pid w2 of
                           (Inl e, w3) \<Rightarrow> Some (Inl e, w3)
                         | (Inr _, w3) \<Rightarrow> Some (Inr (), w3)))
                 else
                   (case promiseAll (generateEmbedding es) chunks w1 of
                      (Inl embeddingError, w2) \<Rightarrow>
                        Some (Inl (McpError InternalError
                                     (EmbeddingGenerationFailed (message embeddingError))), w2)
                    | (Inr embeddings, w2) \<Rightarrow>
                        (case deleteMemoryBankContentByFile pid fname w2 of
                           (Inl e, w3) \<Rightarrow> Some (Inl e, w3)
                         | (Inr _, w3) \<Rightarrow>
                             (case promiseAll
                                     (\<lambda>(i, chunk, vector).
                                        insertMemoryBankChunk pid fname (int i) chunk vector)
                                     (zip [0..<length chunks] (zip chunks embeddings)) w3 of
                                (Inl e, w4) \<Rightarrow> Some (Inl e, w4)
                              | (Inr _, w4) \<Rightarrow>
                                  (case updateLastModified pid w4 of
                                     (Inl e, w5) \<Rightarrow> Some (Inl e, w5)
                                   | (Inr _, w5) \<Rightarrow> Some (Inr (), w5)))))))"

text \<open>\<open>getFileContent(projectId, fileName)\<close>; \<open>join('')\<close> is \<^const>\<open>concat\<close>.\<close>

definition getFileContent :: "string \<Rightarrow> string \<Rightarrow> World \<Rightarrow> (McpError + string) \<times> World" where
  "getFileContent pid fname w =
     (case projectExists pid w of
        (Inl e, w1) \<Rightarrow> (Inl e, w1)
      | (Inr False, w1) \<Rightarrow> (Inl (McpError InvalidParams (ProjectNotFound pid)), w1)
      | (Inr True, w1) \<Rightarrow>
          (case getMemoryBankChunksByFile pid fname w1 of
             (Inl e, w2) \<Rightarrow> (Inl e, w2)
           | (Inr chunks, w2) \<Rightarrow>
               if length chunks = 0 then
                 (Inl (McpError InvalidParams (NoContentFound fname pid)), w2)
               else (Inr (concat (map chunkText_of chunks)), w2)))"

section \<open>Search\<close>

text \<open>
  \<open>toLowerCase\<close> on the ASCII letters, and \<open>String.prototype.includes\<close>.
\<close>

definition toLowerCase :: "string \<Rightarrow> string" where
  "toLowerCase s =
     map (\<lambda>c. if 65 \<le> (of_char c :: nat) \<and> (of_char c :: nat) \<le> 90
               then char_of ((of_char c :: nat) + 32) else c) s"

fun js_includes :: "string \<Rightarrow> string \<Rightarrow> bool" where
  "js_includes [] search = (search = [])"
| "js_includes (c # cs) search = (prefix search (c # cs) \<or> js_includes cs search)"

text \<open>
  The filter of the two search methods: the project, and the file names of a non-empty
  \<open>fileFilter\<close> (\<open>$in\<close>).
\<close>

definition whereClause :: "string \<Rightarrow> string list option \<Rightarrow> ChunkRow \<Rightarrow> bool" where
  "whereClause pid fileFilter r =
     (case row_metadata r of
        None \<Rightarrow> False
      | Some m \<Rightarrow>
          project_id m = pid \<and>
          (case fileFilter of
             None \<Rightarrow> True
           | Some names \<Rightarrow> if length names > 0 then file_name m \<in> set names else True))"

record QueryRow =
  q_id :: string
  q_distance :: "real option"
  q_metadata :: "ChunkMetadata option"
  q_document :: "string option"

text \<open>
  The store's nearest-neighbour query, \<open>collection.query({queryEmbeddings, nResults,
  where, include})\<close>, by its contract: of the rows that pass the filter, the \<open>nResults\<close>
  nearest to the query embedding, nearest first, each with its distance.
\<close>

definition chromaQuery :: "World \<Rightarrow> real list \<Rightarrow> int \<Rightarrow> (ChunkRow \<Rightarrow> bool) \<Rightarrow> QueryRow list" where
  "chromaQuery w queryEmbedding nResults wh =
     map (\<lambda>(d, r). \<lparr>q_id = row_id r, q_distance = Some d, q_metadata = row_metadata r,
                     q_document = row_document r\<rparr>)
       (take (nat nResults)
          (sort_key fst
             (map (\<lambda>r. (distanceFn w queryEmbedding (row_embedding r), r))
                (filter wh (chunksCollection w)))))"

definition queryRowToResult :: "QueryRow \<Rightarrow> DatabaseSearchResult option" where
  "queryRowToResult row =
     (case (q_metadata row, q_document row) of
        (Some meta, Some doc) \<Rightarrow>
          Some \<lparr>chunkId = q_id row, chunkProjectId = project_id meta, fileName = file_name meta,
                chunkIndex = chunk_index meta, chunkText_of = doc, embedding = None,
                chunkCreatedAt = created_at meta, chunkUpdatedAt = updated_at meta,
                score = q_distance row\<rparr>
      | _ \<Rightarrow> None)"

definition semanticSearchChunks ::
  "string \<Rightarrow> real list \<Rightarrow> int \<Rightarrow> string list option \<Rightarrow> World \<Rightarrow>
   (McpError + DatabaseSearchResult list) \<times> World"
where
  "semanticSearchChunks pid queryEmbedding topK fileFilter w =
     (case ensureInitialized w of
        Inl e \<Rightarrow> (Inl e, w)
      | Inr _ \<Rightarrow>
          (case request ChunksQuery w of
             (Inl msg, w1) \<Rightarrow> (Inl (McpError InternalError (DbError SemanticSearch (External msg))), w1)
           | (Inr _, w1) \<Rightarrow>
               (Inr (List.map_filter queryRowToResult
                       (chromaQuery w1 queryEmbedding topK (whereClause pid fileFilter))), w1)))"

definition keywordMatch :: "string \<Rightarrow> ChunkRow \<Rightarrow> DatabaseSearchResult option" where
  "keywordMatch lowerCaseQuery r =
     (case (row_metadata r, row_document r) of
        (Some meta, Some doc) \<Rightarrow>
          if \<not> js_includes (toLowerCase doc) lowerCaseQuery then None
          else Some \<lparr>chunkId = row_id r, chunkProjectId = project_id meta, fileName = file_name meta,
                     chunkIndex = chunk_index meta, chunkText_of = doc, embedding = None,
                     chunkCreatedAt = created_at meta, chunkUpdatedAt = updated_at meta,
                     score = None\<rparr>
      | _ \<Rightarrow> None)"

text \<open>The comparison function of the sort in \<open>keywordSearchChunks\<close>.\<close>

definition keywordCompare ::
  "(string \<Rightarrow> string \<Rightarrow> int) \<Rightarrow> DatabaseSearchResult \<Rightarrow> DatabaseSearchResult \<Rightarrow> real" where
  "keywordCompare cmp a b =
     (if fileName a \<noteq> fileName b then real_of_int (cmp (fileName a) (fileName b))
      else real_of_int (chunkIndex a - chunkIndex b))"

definition keywordSearchChunks ::
  "string \<Rightarrow> string \<Rightarrow> int \<Rightarrow> string list option \<Rightarrow> World \<Rightarrow>
   (McpError + DatabaseSearchResult list) \<times> World"
where
  "keywordSearchChunks pid query topK fileFilter w =
     (case ensureInitialized w of
        Inl e \<Rightarrow> (Inl e, w)
      | Inr _ \<Rightarrow>
          (case request ChunksGet w of
             (Inl msg, w1) \<Rightarrow> (Inl (McpError InternalError (DbError KeywordSearch (External msg))), w1)
           | (Inr _, w1) \<Rightarrow>
               (let candidates = take 100 (filter (whereClause pid fileFilter) (chunksCollection w1));
                    lowerCaseQuery = toLowerCase query;
                    matchedResults = List.map_filter (keywordMatch lowerCaseQuery) candidates;
                    sorted = js_sort (keywordCompare (localeCompare w1)) matchedResults
                in (Inr (js_slice sorted 0 topK), w1))))"

record SearchResult =
  sr_text :: string
  sr_fileName :: string
  sr_chunkIndex :: int
  sr_score :: "real option"

definition toSearchResult :: "DatabaseSearchResult \<Rightarrow> SearchResult" where
  "toSearchResult chunk =
     \<lparr>sr_text = chunkText_of chunk, sr_fileName = fileName chunk,
      sr_chunkIndex = chunkIndex chunk, sr_score = score chunk\<rparr>"

text \<open>
  \<open>(a.score ?? Infinity) - (b.score ?? Infinity)\<close>. The sort only looks at the sign:
  a missing score is behind every number, and for two missing scores the difference is
  \<open>NaN\<close>, which the sort takes for 0.
\<close>

definition scoreCompare :: "SearchResult \<Rightarrow> SearchResult \<Rightarrow> real" where
  "scoreCompare a b =
     (case (sr_score a, sr_score b) of
        (Some x, Some y) \<Rightarrow> x - y
      | (Some x, None) \<Rightarrow> - 1
      | (None, Some y) \<Rightarrow> 1
      | (None, None) \<Rightarrow> 0)"

text \<open>
  \<open>SearchService.search(projectId, query, searchType, topK, fileFilter)\<close>. At run time
  \<open>searchType\<close> is any string; \<open>!query\<close>, \<open>!searchType\<close> and \<open>!topK\<close> hold for the
  empty string and for 0.
\<close>

definition search ::
  "EmbeddingService \<Rightarrow> string \<Rightarrow> string \<Rightarrow> string \<Rightarrow> int \<Rightarrow> string list option \<Rightarrow> World \<Rightarrow>
   (McpError + SearchResult list) \<times> World"
where
  "search es pid query searchType topK fileFilter w =
     (case projectExists pid w of
        (Inl e, w1) \<Rightarrow> (Inl e, w1)
      | (Inr False, w1) \<Rightarrow> (Inl (McpError InvalidParams (ProjectNotFound pid)), w1)
      | (Inr True, w1) \<Rightarrow>
          if query = [] \<or> searchType = [] \<or> topK = 0 then
            (Inl (McpError InvalidParams MissingSearchParameters), w1)
          else if searchType = ''semantic'' then
            (case generateEmbedding es query w1 of
               (Inl e, w2) \<Rightarrow> (Inl e, w2)
             | (Inr queryEmbedding, w2) \<Rightarrow>
                 (case semanticSearchChunks pid queryEmbedding topK fileFilter w2 of
                    (Inl e, w3) \<Rightarrow> (Inl e, w3)
                  | (Inr chunks, w3) \<Rightarrow>
                      (Inr (js_sort scoreCompare (map toSearchResult chunks)), w3)))
          else if searchType = ''keyword'' then
            (case keywordSearchChunks pid query topK fileFilter w1 of
               (Inl e, w2) \<Rightarrow> (Inl e, w2)
             | (Inr chunks, w2) \<Rightarrow> (Inr (map toSearchResult chunks), w2))
          else (Inl (McpError InvalidParams (InvalidSearchType searchType)), w1))"

section \<open>The memoryBank_search tool\<close>

text \<open>
  The arguments of a call as they arrive, and \<open>TOOL_PARAMS_SEARCH\<close>: \<open>projectId\<close> a UUID
  (eight, four, four, four and twelve hexadecimal digits, joined by hyphens); \<open>query\<close>
  trimmed and then at least one character long; \<open>searchType\<close> one of the two modes,
  \<open>semantic\<close> when absent; \<open>topK\<close> an integer from 1 to 20, 5 when absent; \<open>fileFilter\<close>,
  when present, a list of names of 1 to 100 characters matching
  \<^verbatim>\<open>/^[a-zA-Z0-9_.-]+\.md$/\<close>.
\<close>

record SearchArgs =
  arg_projectId :: string
  arg_query :: string
  arg_searchType :: "string option"
  arg_topK :: "int option"
  arg_fileFilter :: "string list option"

definition isHexDigit :: "char \<Rightarrow> bool" where
  "isHexDigit c =
     (let n = (of_char c :: nat)
      in (48 \<le> n \<and> n \<le> 57) \<or> (65 \<le> n \<and> n \<le> 70) \<or> (97 \<le> n \<and> n \<le> 102))"

definition isUuid :: "string \<Rightarrow> bool" where
  "isUuid s =
     (length s = 36 \<and>
      list_all (\<lambda>(i, c). if i \<in> {8, 13, 18, 23} then c = CHR ''-'' else isHexDigit c)
        (zip [0..<36] s))"

definition isFileNameChar :: "char \<Rightarrow> bool" where
  "isFileNameChar c =
     (let n = (of_char c :: nat)
      in (48 \<le> n \<and> n \<le> 57) \<or> (65 \<le> n \<and> n \<le> 90) \<or> (97 \<le> n \<and> n \<le> 122)
         \<or> c = CHR ''_'' \<or> c = CHR ''.'' \<or> c = CHR ''-'')"

definition isFileName :: "string \<Rightarrow> bool" where
  "isFileName f =
     (1 \<le> length f \<and> length f \<le> 100 \<and> 4 \<le> length f \<and>
      drop (length f - 3) f = ''.md'' \<and> list_all isFileNameChar f)"

record ParsedSearchArgs =
  projectId_arg :: string
  query_arg :: string
  searchType_arg :: string
  topK_arg :: int
  fileFilter_arg :: "string list option"

definition parseSearchArgs :: "SearchArgs \<Rightarrow> ParsedSearchArgs option" where
  "parseSearchArgs args =
     (if \<not> isUuid (arg_projectId args) then None
      else if length (js_trim (arg_query args)) < 1 then None
      else if (case arg_searchType args of
                 None \<Rightarrow> False
               | Some t \<Rightarrow> t \<noteq> ''semantic'' \<and> t \<noteq> ''keyword'') then None
      else if (case arg_topK args of None \<Rightarrow> False | Some k \<Rightarrow> k < 1 \<or> 20 < k) then None
      else if (case arg_fileFilter args of
                 None \<Rightarrow> False
               | Some names \<Rightarrow> \<not> list_all isFileName names) then None
      else Some \<lparr>projectId_arg = arg_projectId args,
                 query_arg = js_trim (arg_query args),
                 searchType_arg = (case arg_searchType args of None \<Rightarrow> ''semantic'' | Some t \<Rightarrow> t),
                 topK_arg = (case arg_topK args of None \<Rightarrow> 5 | Some k \<Rightarrow> k),
                 fileFilter_arg = arg_fileFilter args\<rparr>)"

text \<open>
  A call of the tool: the server parses the arguments against the schema and rejects
  them with \<open>InvalidParams\<close> before the handler runs; the handler,
  \<open>processSearchRequest\<close>, calls \<open>search\<close> and rethrows its \<open>McpError\<close>s.
\<close>

definition memoryBankSearchTool ::
  "EmbeddingService \<Rightarrow> SearchArgs \<Rightarrow> World \<Rightarrow> (McpError + SearchResult list) \<times> World" where
  "memoryBankSearchTool es args w =
     (case parseSearchArgs args of
        None \<Rightarrow> (Inl (McpError InvalidParams InvalidToolArguments), w)
      | Some a \<Rightarrow>
          search es (projectId_arg a) (query_arg a) (searchType_arg a) (topK_arg a)
            (fileFilter_arg a) w)"

section \<open>Tokenizers to run the splitter on\<close>


text \<open>
  A tokenizer of the shape of the configured default model's (\<open>Xenova/all-MiniLM-L6-v2\<close>,
  a BERT tokenizer): white space yields no token, every other code unit is a token of its
  own, and \<open>encode\<close> wraps the sequence in the special tokens \<open>[CLS]\<close> and \<open>[SEP]\<close>,
  which \<open>decode\<close> skips.
\<close>

definition CLS :: nat where "CLS = 0"
definition SEP :: nat where "SEP = 1"

definition bertLikeTokenizer :: PreTrainedTokenizer where
  "bertLikeTokenizer =
     \<lparr>encode = (\<lambda>text. CLS # map (\<lambda>c. of_char c + 2) (filter (\<lambda>c. \<not> isWhiteSpace c) text) @ [SEP]),
      decode = (\<lambda>ids. map (\<lambda>t. char_of (t - 2)) (filter (\<lambda>t. t \<noteq> CLS \<and> t \<noteq> SEP) ids))\<rparr>"

text \<open>Two services, ready for chunking, one for each tokenizer.\<close>

definition bertService :: EmbeddingService where
  "bertService = \<lparr>isInitialized = True, extractor = None, tokenizer = Some bertLikeTokenizer\<rparr>"


section \<open>Documents to run the splitter on\<close>

text \<open>
  A run of \<open>n\<close> characters \<open>#\<close>: no separator occurs in it, and a BERT tokenizer makes
  every \<open>#\<close> a token of its own.
\<close>

definition hashes :: "nat \<Rightarrow> string" where
  "hashes n = replicate n (CHR ''#'')"

text \<open>A one-letter paragraph, a paragraph break, and a paragraph of 449 \<open>#\<close>.\<close>

definition paragraphThenHashes :: string where
  "paragraphThenHashes = CHR ''a'' # CHR 0x0A # CHR 0x0A # hashes 449"

section \<open>The token budget\<close>



section \<open>Worlds to run the services in\<close>

text \<open>
  The chunks a file has in the store, as \<open>getMemoryBankChunksByFile\<close> reads them: the rows
  of the project and file that have metadata and a document, in the store's order.
\<close>

definition storedChunks :: "string \<Rightarrow> string \<Rightarrow> World \<Rightarrow> MemoryBankChunk list" where
  "storedChunks pid fname w =
     List.map_filter rowToChunk (filter (inFile pid fname) (chunksCollection w))"

text \<open>
  Two functions to stand for the platform's in the examples: a comparison of strings by
  code units, which orders the file names of the examples as \<open>localeCompare\<close> does, and
  the inner-product distance of a collection created with \<open>hnsw:space = ip\<close>.
\<close>

fun codeUnitCompare :: "string \<Rightarrow> string \<Rightarrow> int" where
  "codeUnitCompare [] [] = 0"
| "codeUnitCompare [] (y # ys) = - 1"
| "codeUnitCompare (x # xs) [] = 1"
| "codeUnitCompare (x # xs) (y # ys) =
     (if (of_char x :: nat) < of_char y then - 1
      else if (of_char y :: nat) < of_char x then 1
      else codeUnitCompare xs ys)"

definition ipDistance :: "real list \<Rightarrow> real list \<Rightarrow> real" where
  "ipDistance q e = 1 - sum_list (map (\<lambda>(x, y). x * y) (zip q e))"

definition demoProjectId :: string where
  "demoProjectId = ''3f2b8c1e-5a7d-4e9f-8b6a-0c1d2e3f4a5b''"

text \<open>A row as \<open>insertMemoryBankChunk\<close> stores it.\<close>

definition chunkRow :: "string \<Rightarrow> string \<Rightarrow> int \<Rightarrow> string \<Rightarrow> real list \<Rightarrow> ChunkRow" where
  "chunkRow rid fname idx doc vector =
     \<lparr>row_id = rid, row_embedding = vector,
      row_metadata = Some \<lparr>chunk_id = rid, project_id = demoProjectId, file_name = fname,
                            chunk_index = idx, created_at = ''2025-01-01T00:00:00.000Z'',
                            updated_at = ''2025-01-01T00:00:00.000Z''\<rparr>,
      row_document = Some doc\<rparr>"

text \<open>
  A healthy store holding one project and the given chunk rows: initialised, no request
  throws, nothing called yet.
\<close>

definition demoWorld :: "ChunkRow list \<Rightarrow> World" where
  "demoWorld rows =
     \<lparr>projectsCollection =
        [(demoProjectId, Some (ProjectMetadata demoProjectId ''demo''
            ''2025-01-01T00:00:00.000Z'' ''2025-01-01T00:00:00.000Z''))],
      chunksCollection = rows,
      dbIsInitialized = True,
      dbHandles = True,
      faults = (\<lambda>n. None),
      trace = [],
      distanceFn = ipDistance,
      localeCompare = codeUnitCompare,
      uuidv4 = (\<lambda>n. ''chunk-'' @ replicate n (CHR ''i'')),
      now = ''2025-01-02T00:00:00.000Z''\<rparr>"

text \<open>The three chunks of the keyword example, in the order the store holds them.\<close>

definition keywordRows :: "ChunkRow list" where
  "keywordRows =
     [chunkRow ''k1'' ''fileA.md'' 2 ''no match'' [1],
      chunkRow ''k2'' ''fileA.md'' 0 ''hello world'' [1],
      chunkRow ''k3'' ''fileB.md'' 0 ''hello'' [1]]"

text \<open>
  The five chunks of the semantic example. The query embeds to \<open>[1]\<close>, so their distances
  from it are 0.1, 0.9, 0.3, 0.05 and 0.5.
\<close>

definition semanticRows :: "ChunkRow list" where
  "semanticRows =
     [chunkRow ''s1'' ''fileA.md'' 0 ''one'' [9 / 10],
      chunkRow ''s2'' ''fileA.md'' 1 ''two'' [1 / 10],
      chunkRow ''s3'' ''fileA.md'' 2 ''three'' [7 / 10],
      chunkRow ''s4'' ''fileB.md'' 0 ''four'' [95 / 100],
      chunkRow ''s5'' ''fileB.md'' 1 ''five'' [5 / 10]]"

text \<open>
  Services with the BERT-like tokenizer: one whose pipeline embeds every text to \<open>[1]\<close>,
  one whose pipeline throws on every text.
\<close>

definition embeddingService :: EmbeddingService where
  "embeddingService =
     \<lparr>isInitialized = True, extractor = Some (\<lambda>t. Inr [1]), tokenizer = Some bertLikeTokenizer\<rparr>"

definition failingService :: EmbeddingService where
  "failingService =
     \<lparr>isInitialized = True, extractor = Some (\<lambda>t. Inl ''out of memory''),
      tokenizer = Some bertLikeTokenizer\<rparr>"

section \<open>The token window loop\<close>





section \<open>The splitter: budget, totality, runs\<close>

lemma js_trim_Nil: "js_trim [] = []"
  by (simp add: js_trim_def)








lemma split_from_absent:
  "separator \<noteq> [] \<Longrightarrow> hd separator \<notin> set s \<Longrightarrow> split_from separator s = [s]"
  by (induction s) (auto simp: prefix_def neq_Nil_conv)

lemma js_split_absent:
  "separator \<noteq> [] \<Longrightarrow> hd separator \<notin> set s \<Longrightarrow> js_split s separator = [s]"
  by (simp add: js_split_def split_from_absent)

lemma splitTextWithTokenizer_passthrough:
  assumes "separator \<noteq> []" "hd separator \<notin> set s"
    and "int (length (encode tk s)) > chunkSize opts"
  shows "splitTextWithTokenizer s opts tk (separator # rest) = splitTextWithTokenizer s opts tk rest"
proof (cases "splitTextWithTokenizer s opts tk rest")
  case None
  then show ?thesis using assms by (simp add: js_split_absent)
next
  case (Some sub)
  then show ?thesis using assms by (simp add: js_split_absent js_trim_Nil)
qed

lemma encode_bertLike_hashes:
  "encode bertLikeTokenizer (hashes n) = CLS # replicate n 37 @ [SEP]"
  by (simp add: bertLikeTokenizer_def hashes_def isWhiteSpace_def)

lemma char_of_35: "char_of (35::nat) = CHR ''#''"
  by code_simp

lemma decode_bertLike_window:
  "decode bertLikeTokenizer (replicate n 37 @ [SEP]) = hashes n"
  "decode bertLikeTokenizer (CLS # replicate n 37) = hashes n"
  "decode bertLikeTokenizer [SEP] = []"
  by (simp_all add: bertLikeTokenizer_def hashes_def CLS_def SEP_def char_of_35)

lemma window_449:
  "slideWindow \<lparr>chunkSize = 450, chunkOverlap = 50\<rparr> bertLikeTokenizer
     (CLS # replicate 449 37 @ [SEP]) 0 [] = Some [hashes 449, hashes 50]"
  by (simp add: slideWindow.simps js_slice_def Let_def decode_bertLike_window)



lemma hashes_over_budget:
  "450 < n + 2 \<Longrightarrow> chunkSize \<lparr>chunkSize = 450, chunkOverlap = 50\<rparr>
     < int (length (encode bertLikeTokenizer (hashes n)))"
  by (simp add: encode_bertLike_hashes)

lemma split_hashes_to_base:
  assumes "450 < n + 2"
  shows "splitTextWithTokenizer (hashes n) \<lparr>chunkSize = 450, chunkOverlap = 50\<rparr> bertLikeTokenizer
           [[CHR 0x0A], ''. '', ''? '', ''! '', '' '', []]
         = slideWindow \<lparr>chunkSize = 450, chunkOverlap = 50\<rparr> bertLikeTokenizer
             (CLS # replicate n 37 @ [SEP]) 0 []"
proof -
  have ne: "hashes n \<noteq> []" using assms by (simp add: hashes_def)
  have abs: "\<And>sep. sep \<noteq> [] \<Longrightarrow> hd sep \<noteq> CHR ''#'' \<Longrightarrow> hd sep \<notin> set (hashes n)"
    by (simp add: hashes_def)
  note p = splitTextWithTokenizer_passthrough[OF _ abs hashes_over_budget[OF assms]]
  show ?thesis
    by (simp add: p ne encode_bertLike_hashes del: splitTextWithTokenizer.simps)
       (simp add: ne encode_bertLike_hashes)
qed


lemma window_799:
  "slideWindow \<lparr>chunkSize = 450, chunkOverlap = 50\<rparr> bertLikeTokenizer
     (CLS # replicate 799 37 @ [SEP]) 0 [] = Some [hashes 449, hashes 400, []]"
  by (simp add: slideWindow.simps js_slice_def Let_def decode_bertLike_window)

lemma chunkText_hashes_799:
  "chunkText bertService (hashes 799) = Some (Inr [hashes 449, hashes 400, []])"
proof -
  have abs: "hd [CHR 0x0A, CHR 0x0A] \<notin> set (hashes 799)" by (simp add: hashes_def)
  have "splitTextWithTokenizer (hashes 799) \<lparr>chunkSize = 450, chunkOverlap = 50\<rparr> bertLikeTokenizer
          defaultSeparators = Some [hashes 449, hashes 400, []]"
    unfolding defaultSeparators_def
    by (subst splitTextWithTokenizer_passthrough[OF _ abs hashes_over_budget])
       (simp_all add: split_hashes_to_base window_799 del: splitTextWithTokenizer.simps)
  then show ?thesis by (simp add: chunkText_def bertService_def)
qed

lemma js_split_paragraphThenHashes:
  "js_split paragraphThenHashes [CHR 0x0A, CHR 0x0A] = [''a'', hashes 449]"
proof -
  have "split_from [CHR 0x0A, CHR 0x0A] (hashes 449) = [hashes 449]"
    by (rule split_from_absent) (simp_all add: hashes_def)
  then show ?thesis by (simp add: js_split_def paragraphThenHashes_def)
qed

lemma encode_bertLike_paragraph:
  "length (encode bertLikeTokenizer ''a'') = 3"
  "length (encode bertLikeTokenizer (CHR 0x0A # CHR 0x0A # hashes 449)) = 451"
  by (simp_all add: bertLikeTokenizer_def isWhiteSpace_def hashes_def)

lemma chunkText_paragraphThenHashes:
  "chunkText bertService paragraphThenHashes = Some (Inr [hashes 449, hashes 50])"
proof -
  have rec: "splitTextWithTokenizer (hashes 449) \<lparr>chunkSize = 450, chunkOverlap = 50\<rparr>
               bertLikeTokenizer [[CHR 0x0A], ''. '', ''? '', ''! '', '' '', []]
             = Some [hashes 449, hashes 50]"
    by (simp add: split_hashes_to_base window_449 del: splitTextWithTokenizer.simps)
  have "splitTextWithTokenizer paragraphThenHashes \<lparr>chunkSize = 450, chunkOverlap = 50\<rparr>
          bertLikeTokenizer defaultSeparators = Some [hashes 449, hashes 50]"
    unfolding defaultSeparators_def
    by (subst splitTextWithTokenizer.simps)
       (simp add: js_split_paragraphThenHashes encode_bertLike_paragraph rec js_trim_Nil Let_def
          del: splitTextWithTokenizer.simps)
  then show ?thesis by (simp add: chunkText_def bertService_def)
qed

section \<open>Properties of the splitter\<close>







text \<open>
  C1 on the code. When a piece is over the budget the splitter recurses into it and then
  resets \<open>currentChunk\<close> without emitting what it had accumulated. For the paragraph \<open>a\<close>
  followed by a paragraph of 449 \<open>#\<close>, the chunks hold the \<open>#\<close> only: the letter \<open>a\<close> of
  the document, which is no white space, is in none of them.
\<close>

theorem chunkText_drops_accumulated_chunk:
  "chunkText bertService paragraphThenHashes = Some (Inr [hashes 449, hashes 50]) \<and>
   CHR ''a'' \<in> set paragraphThenHashes \<and> \<not> isWhiteSpace (CHR ''a'') \<and>
   CHR ''a'' \<notin> set (concat [hashes 449, hashes 50])"
  using chunkText_paragraphThenHashes
  by (simp add: paragraphThenHashes_def hashes_def isWhiteSpace_def)

text \<open>
  C9 on the code. The base case emits every window that holds a token, without looking
  at the text it decodes to. A document of 799 \<open>#\<close> has 801 tokens; the third window
  holds \<open>[SEP]\<close> alone and decodes to the empty string, which is emitted as a chunk.
\<close>

theorem chunkText_emits_empty_chunk:
  "chunkText bertService (hashes 799) = Some (Inr [hashes 449, hashes 400, []]) \<and>
   length (js_trim (last [hashes 449, hashes 400, []])) = 0"
  using chunkText_hashes_799 by (simp add: js_trim_Nil)

section \<open>Sorting, requests, project lookup\<close>

lemma mset_insort_by: "mset (insort_by cmp x xs) = add_mset x (mset xs)"
  by (induction xs) auto

lemma mset_js_sort: "mset (js_sort cmp xs) = mset xs"
  by (induction xs) (auto simp: js_sort_def mset_insort_by)

lemma set_js_sort: "set (js_sort cmp xs) = set xs"
  by (metis mset_js_sort set_mset_mset)

lemma length_js_sort: "length (js_sort cmp xs) = length xs"
  by (metis mset_js_sort size_mset)

lemma set_insort_by: "set (insort_by cmp x xs) = insert x (set xs)"
  by (metis mset_insort_by set_mset_mset set_mset_add_mset_insert)

lemma sorted_insort_by:
  assumes total: "\<forall>a b. cmp a b \<le> 0 \<or> cmp b a \<le> 0"
    and trans: "\<forall>a b c. cmp a b \<le> 0 \<longrightarrow> cmp b c \<le> 0 \<longrightarrow> cmp a c \<le> 0"
  shows "sorted_wrt (\<lambda>a b. cmp a b \<le> 0) xs \<Longrightarrow> sorted_wrt (\<lambda>a b. cmp a b \<le> 0) (insort_by cmp x xs)"
proof (induction xs)
  case Nil
  then show ?case by simp
next
  case (Cons y ys)
  show ?case
  proof (cases "cmp x y \<le> 0")
    case True
    then have "\<forall>z\<in>set ys. cmp x z \<le> 0" using Cons.prems trans by auto
    then show ?thesis using True Cons.prems by simp
  next
    case False
    then have "cmp y x \<le> 0" using total by blast
    then show ?thesis using False Cons by (auto simp: set_insort_by)
  qed
qed

lemma sorted_js_sort:
  assumes "\<forall>a b. cmp a b \<le> 0 \<or> cmp b a \<le> 0"
    and "\<forall>a b c. cmp a b \<le> 0 \<longrightarrow> cmp b c \<le> 0 \<longrightarrow> cmp a c \<le> 0"
  shows "sorted_wrt (\<lambda>a b. cmp a b \<le> 0) (js_sort cmp xs)"
  by (induction xs) (simp_all add: js_sort_def sorted_insort_by[OF assms])

lemma request_eq:
  "request c w =
     ((case faults w (length (trace w)) of Some msg \<Rightarrow> Inl msg | None \<Rightarrow> Inr ()),
      w\<lparr>trace := trace w @ [c]\<rparr>)"
  by (simp add: request_def split: option.splits)

lemma projectExists_True:
  assumes "projectExists pid w = (Inr True, w1)"
  shows "w1 = w\<lparr>trace := trace w @ [ProjectsGet pid]\<rparr>"
    and "dbIsInitialized w" and "dbHandles w" and "faults w (length (trace w)) = None"
    and "pid \<noteq> []"
  using assms
  by (auto simp: projectExists_def findProjectById_def ensureInitialized_def request_eq
           split: if_splits option.splits sum.splits list.splits prod.splits)

lemma getMemoryBankChunksByFile_eq:
  assumes "dbIsInitialized w" "dbHandles w"
  shows "getMemoryBankChunksByFile pid fname w =
     ((case faults w (length (trace w)) of
         Some msg \<Rightarrow> Inl (McpError InternalError DbErrorGettingFileChunks)
       | None \<Rightarrow> Inr (js_sort (\<lambda>a b. real_of_int (chunkIndex a - chunkIndex b)) (storedChunks pid fname w))),
      w\<lparr>trace := trace w @ [ChunksGet]\<rparr>)"
  using assms
  by (auto simp: getMemoryBankChunksByFile_def ensureInitialized_def request_eq storedChunks_def
        Let_def js_sort_def List.map_filter_simps split: option.splits)

lemma sorted_by_chunkIndex:
  "sorted (map chunkIndex (js_sort (\<lambda>a b. real_of_int (chunkIndex a - chunkIndex b)) xs))"
proof -
  have "sorted_wrt (\<lambda>a b. real_of_int (chunkIndex a - chunkIndex b) \<le> 0)
          (js_sort (\<lambda>a b. real_of_int (chunkIndex a - chunkIndex b)) xs)"
    by (rule sorted_js_sort) auto
  then show ?thesis by (simp add: sorted_map)
qed

section \<open>Properties of file reconstruction\<close>

text \<open>
  C6. For an existing project, when the store answers, \<open>getFileContent\<close> returns the
  \<open>text\<close> fields of the file's stored chunks, joined with nothing between them, in
  ascending \<open>chunkIndex\<close> order; with no stored chunk it raises the error "No content
  found for file ..." with code \<open>InvalidParams\<close>. When the store's request throws, it
  raises "Database error getting file chunks." with code \<open>InternalError\<close>.
\<close>

theorem getFileContent_concatenates_in_index_order:
  assumes "projectExists pid w = (Inr True, w1)"
  shows "case faults w (length (trace w1)) of
           None \<Rightarrow>
             (\<exists>chunks. mset chunks = mset (storedChunks pid fname w) \<and>
                sorted (map chunkIndex chunks) \<and>
                fst (getFileContent pid fname w) =
                  (if chunks = [] then Inl (McpError InvalidParams (NoContentFound fname pid))
                   else Inr (concat (map chunkText_of chunks))))
         | Some msg \<Rightarrow>
             fst (getFileContent pid fname w) = Inl (McpError InternalError DbErrorGettingFileChunks)"
proof -
  note pe = projectExists_True[OF assms]
  have init: "dbIsInitialized w1" "dbHandles w1" using pe by simp_all
  have same: "storedChunks pid fname w1 = storedChunks pid fname w" "faults w1 = faults w"
    using pe by (simp_all add: storedChunks_def)
  let ?sorted = "js_sort (\<lambda>a b. real_of_int (chunkIndex a - chunkIndex b)) (storedChunks pid fname w)"
  show ?thesis
  proof (cases "faults w (length (trace w1))")
    case None
    have "fst (getFileContent pid fname w) =
            (if ?sorted = [] then Inl (McpError InvalidParams (NoContentFound fname pid))
             else Inr (concat (map chunkText_of ?sorted)))"
      using assms None same by (simp add: getFileContent_def getMemoryBankChunksByFile_eq[OF init])
    moreover have "mset ?sorted = mset (storedChunks pid fname w)" by (rule mset_js_sort)
    moreover have "sorted (map chunkIndex ?sorted)" by (rule sorted_by_chunkIndex)
    ultimately show ?thesis using None by auto
  next
    case (Some msg)
    then show ?thesis
      using assms same by (simp add: getFileContent_def getMemoryBankChunksByFile_eq[OF init])
  qed
qed

lemma demoWorld_fields:
  "faults (demoWorld rows) = (\<lambda>n. None)" "dbIsInitialized (demoWorld rows)"
  "dbHandles (demoWorld rows)" "trace (demoWorld rows) = []"
  "chunksCollection (demoWorld rows) = rows"
  by (simp_all add: demoWorld_def)

lemma projectExists_demoWorld:
  "projectExists demoProjectId (demoWorld rows) =
     (Inr True, (demoWorld rows)\<lparr>trace := [ProjectsGet demoProjectId]\<rparr>)"
  by (simp add: projectExists_def findProjectById_def ensureInitialized_def request_def
        demoWorld_def demoProjectId_def)

theorem getFileContent_concatenates_in_index_order_witness:
  "projectExists demoProjectId (demoWorld keywordRows) =
     (Inr True, (demoWorld keywordRows)\<lparr>trace := [ProjectsGet demoProjectId]\<rparr>) \<and>
   (\<exists>chunks. mset chunks = mset (storedChunks demoProjectId ''fileA.md'' (demoWorld keywordRows)) \<and>
      sorted (map chunkIndex chunks) \<and>
      fst (getFileContent demoProjectId ''fileA.md'' (demoWorld keywordRows)) =
        (if chunks = [] then Inl (McpError InvalidParams (NoContentFound ''fileA.md'' demoProjectId))
         else Inr (concat (map chunkText_of chunks)))) \<and>
   fst (getFileContent demoProjectId ''fileA.md'' (demoWorld keywordRows)) = Inr ''hello worldno match''"
proof -
  have ev: "fst (getFileContent demoProjectId ''fileA.md'' (demoWorld keywordRows)) = Inr ''hello worldno match''"
    by (simp add: getFileContent_def projectExists_demoWorld)
       (simp add: getMemoryBankChunksByFile_def
          ensureInitialized_def request_def demoWorld_def keywordRows_def chunkRow_def inFile_def
          js_sort_def List.map_filter_simps rowToChunk_def Let_def)
  from getFileContent_concatenates_in_index_order[OF projectExists_demoWorld[of keywordRows], of "''fileA.md''"]
  have "\<exists>chunks. mset chunks = mset (storedChunks demoProjectId ''fileA.md'' (demoWorld keywordRows)) \<and>
      sorted (map chunkIndex chunks) \<and>
      fst (getFileContent demoProjectId ''fileA.md'' (demoWorld keywordRows)) =
        (if chunks = [] then Inl (McpError InvalidParams (NoContentFound ''fileA.md'' demoProjectId))
         else Inr (concat (map chunkText_of chunks)))"
    by (simp add: demoWorld_fields)
  then show ?thesis using ev projectExists_demoWorld by blast
qed

section \<open>Embedding a batch, deleting a file, touching the project\<close>

lemma projectExists_state:
  "projectExists pid w = (r, w1) \<Longrightarrow> w1 = w \<or> w1 = w\<lparr>trace := trace w @ [ProjectsGet pid]\<rparr>"
  by (auto simp: projectExists_def findProjectById_def ensureInitialized_def request_eq
           split: if_splits option.splits sum.splits list.splits prod.splits)

lemma generateEmbedding_state:
  "generateEmbedding es t w = (r, w1) \<Longrightarrow> w1 = w \<or> w1 = w\<lparr>trace := trace w @ [ExtractorCall t]\<rparr>"
  by (auto simp: generateEmbedding_def split: if_splits option.splits sum.splits)

lemma fst_generateEmbedding:
  "fst (generateEmbedding es t w) = fst (generateEmbedding es t w0)"
  by (auto simp: generateEmbedding_def split: if_splits option.splits sum.splits)

lemma promiseAll_generateEmbedding:
  "promiseAll (generateEmbedding es) chunks w = (r, w1) \<Longrightarrow>
   (\<exists>calls. w1 = w\<lparr>trace := trace w @ calls\<rparr> \<and> set calls \<subseteq> ExtractorCall ` set chunks) \<and>
   ((\<exists>c\<in>set chunks. isl (fst (generateEmbedding es c w))) \<longrightarrow> isl r)"
proof (induction chunks arbitrary: w r w1)
  case Nil
  then show ?case by auto
next
  case (Cons c cs)
  obtain r0 w0 where g: "generateEmbedding es c w = (r0, w0)" by (cases "generateEmbedding es c w")
  obtain rs w2 where p: "promiseAll (generateEmbedding es) cs w0 = (rs, w2)"
    by (cases "promiseAll (generateEmbedding es) cs w0")
  from Cons.prems g p have w1: "w1 = w2"
    and r: "r = (case r0 of Inl e \<Rightarrow> Inl e
                 | Inr y \<Rightarrow> (case rs of Inl e \<Rightarrow> Inl e | Inr ys \<Rightarrow> Inr (y # ys)))"
    by (auto split: sum.splits)
  from Cons.IH[OF p] obtain calls where
    c2: "w2 = w0\<lparr>trace := trace w0 @ calls\<rparr>" "set calls \<subseteq> ExtractorCall ` set cs"
    and f2: "(\<exists>c\<in>set cs. isl (fst (generateEmbedding es c w0))) \<longrightarrow> isl rs"
    by blast
  from generateEmbedding_state[OF g] have
    "\<exists>calls0. w0 = w\<lparr>trace := trace w @ calls0\<rparr> \<and> set calls0 \<subseteq> ExtractorCall ` set (c # cs)"
  proof
    assume "w0 = w"
    then have "w0 = w\<lparr>trace := trace w @ []\<rparr>" by simp
    then show ?thesis by (metis empty_set empty_subsetI)
  next
    assume "w0 = w\<lparr>trace := trace w @ [ExtractorCall c]\<rparr>"
    then show ?thesis by (intro exI[of _ "[ExtractorCall c]"]) simp
  qed
  then obtain calls0 where c0: "w0 = w\<lparr>trace := trace w @ calls0\<rparr>"
    "set calls0 \<subseteq> ExtractorCall ` set (c # cs)" by blast
  have "w1 = w\<lparr>trace := trace w @ (calls0 @ calls)\<rparr>" using w1 c2(1) c0(1) by simp
  moreover have "set (calls0 @ calls) \<subseteq> ExtractorCall ` set (c # cs)" using c0(2) c2(2) by auto
  moreover have "(\<exists>c'\<in>set (c # cs). isl (fst (generateEmbedding es c' w))) \<longrightarrow> isl r"
  proof
    assume "\<exists>c'\<in>set (c # cs). isl (fst (generateEmbedding es c' w))"
    then consider "isl (fst (generateEmbedding es c w))"
      | "\<exists>c'\<in>set cs. isl (fst (generateEmbedding es c' w0))"
      using fst_generateEmbedding[of es _ w w0] by auto
    then show "isl r"
    proof cases
      case 1
      then show ?thesis using g r by (auto split: sum.splits)
    next
      case 2
      with f2 show ?thesis using r by (auto split: sum.splits)
    qed
  qed
  ultimately show ?case by blast
qed

section \<open>Properties of file updates\<close>

text \<open>
  C3. When a chunk of the batch fails to embed, \<open>updateFileContent\<close> raises an error and
  leaves both collections as they were; the only external calls it has made are the
  project lookup and the calls of the embedding pipeline, so no delete and no insert was
  attempted. For an existing project and non-empty arguments the error is the internal
  error "Embedding generation failed: ...".
\<close>

theorem updateFileContent_embedding_failure_keeps_chunks:
  assumes chunks: "chunkText es content = Some (Inr chunks)"
    and c: "c \<in> set chunks"
    and fails: "isl (fst (generateEmbedding es c w))"
  shows "\<exists>e w'. updateFileContent es pid fname content w = Some (Inl e, w') \<and>
           chunksCollection w' = chunksCollection w \<and>
           projectsCollection w' = projectsCollection w \<and>
           (\<exists>calls. trace w' = trace w @ calls \<and>
              set calls \<subseteq> insert (ProjectsGet pid) (ExtractorCall ` set chunks)) \<and>
           (fst (projectExists pid w) = Inr True \<and> fname \<noteq> [] \<and> content \<noteq> [] \<longrightarrow>
              (\<exists>m. e = McpError InternalError (EmbeddingGenerationFailed m)))"
proof -
  obtain r w1 where pe: "projectExists pid w = (r, w1)" by (cases "projectExists pid w")
  from projectExists_state[OF pe] have
    "\<exists>calls1. w1 = w\<lparr>trace := trace w @ calls1\<rparr> \<and> set calls1 \<subseteq> {ProjectsGet pid}"
  proof
    assume "w1 = w"
    then have "w1 = w\<lparr>trace := trace w @ []\<rparr>" by simp
    then show ?thesis by (metis empty_set empty_subsetI)
  next
    assume "w1 = w\<lparr>trace := trace w @ [ProjectsGet pid]\<rparr>"
    then show ?thesis by (intro exI[of _ "[ProjectsGet pid]"]) simp
  qed
  then obtain calls1 where w1: "w1 = w\<lparr>trace := trace w @ calls1\<rparr>"
    and calls1: "set calls1 \<subseteq> {ProjectsGet pid}" by blast
  have early: "chunksCollection w1 = chunksCollection w" "projectsCollection w1 = projectsCollection w"
    "trace w1 = trace w @ calls1"
    "set calls1 \<subseteq> insert (ProjectsGet pid) (ExtractorCall ` set chunks)"
    using w1 calls1 by auto
  show ?thesis
  proof (cases "r = Inr True \<and> fname \<noteq> [] \<and> content \<noteq> []")
    case False
    then have "\<exists>e. updateFileContent es pid fname content w = Some (Inl e, w1)"
      using pe by (cases r) (auto simp: updateFileContent_def split: bool.splits)
    then show ?thesis using early False pe by auto
  next
    case True
    obtain rs w2 where pa: "promiseAll (generateEmbedding es) chunks w1 = (rs, w2)"
      by (cases "promiseAll (generateEmbedding es) chunks w1")
    have "isl (fst (generateEmbedding es c w1))"
      using fails fst_generateEmbedding[of es c w1 w] by simp
    with promiseAll_generateEmbedding[OF pa] c obtain calls2 embeddingError where
      w2: "w2 = w1\<lparr>trace := trace w1 @ calls2\<rparr>" "set calls2 \<subseteq> ExtractorCall ` set chunks"
      and rs: "rs = Inl embeddingError"
      by (cases rs) auto
    have ne: "length chunks \<noteq> 0" using c by auto
    have "updateFileContent es pid fname content w =
            Some (Inl (McpError InternalError (EmbeddingGenerationFailed (message embeddingError))), w2)"
      using True pe chunks ne pa rs by (simp add: updateFileContent_def)
    moreover have "trace w2 = trace w @ (calls1 @ calls2)" using w2(1) w1 by simp
    moreover have "set (calls1 @ calls2) \<subseteq> insert (ProjectsGet pid) (ExtractorCall ` set chunks)"
      using calls1 w2(2) by auto
    moreover have "chunksCollection w2 = chunksCollection w" "projectsCollection w2 = projectsCollection w"
      using w2(1) w1 by simp_all
    ultimately show ?thesis by blast
  qed
qed

lemma chunkText_some_text:
  "chunkText failingService ''some text'' = Some (Inr [''some text''])"
  by (simp add: chunkText_def failingService_def defaultSeparators_def js_split_def
        bertLikeTokenizer_def isWhiteSpace_def js_trim_def Let_def)

theorem updateFileContent_embedding_failure_keeps_chunks_witness:
  "chunkText failingService ''some text'' = Some (Inr [''some text'']) \<and>
   ''some text'' \<in> set [''some text''] \<and>
   isl (fst (generateEmbedding failingService ''some text'' (demoWorld keywordRows))) \<and>
   (\<exists>e w'. updateFileContent failingService demoProjectId ''fileA.md'' ''some text''
              (demoWorld keywordRows) = Some (Inl e, w') \<and>
      chunksCollection w' = keywordRows \<and>
      (\<exists>calls. trace w' = calls \<and>
         set calls \<subseteq> insert (ProjectsGet demoProjectId) (ExtractorCall ` set [''some text''])))"
proof -
  have h2: "''some text'' \<in> set [''some text'']" by simp
  have h3: "isl (fst (generateEmbedding failingService ''some text'' (demoWorld keywordRows)))"
    by (simp add: generateEmbedding_def failingService_def)
  from updateFileContent_embedding_failure_keeps_chunks[OF chunkText_some_text h2 h3,
      of demoProjectId "''fileA.md''"]
  show ?thesis using chunkText_some_text h3 by (auto simp: demoWorld_fields)
qed

lemma deleteMemoryBankContentByFile_ok:
  assumes "dbIsInitialized w" "dbHandles w" "\<forall>n\<ge>length (trace w). faults w n = None"
  shows "\<exists>w'. deleteMemoryBankContentByFile pid fname w = (Inr True, w') \<and>
           chunksCollection w' =
             filter (\<lambda>r. row_id r \<notin> row_id ` {r' \<in> set (chunksCollection w). inFile pid fname r'})
               (chunksCollection w) \<and>
           projectsCollection w' = projectsCollection w \<and>
           dbIsInitialized w' \<and> dbHandles w' \<and> faults w' = faults w \<and> now w' = now w \<and>
           length (trace w) \<le> length (trace w')"
proof -
  let ?rows = "chunksCollection w"
  let ?ids = "map row_id (filter (\<lambda>r. case row_metadata r of None \<Rightarrow> False
                 | Some meta \<Rightarrow> file_name meta = fname) (filter (inProject pid) ?rows))"
  have ids: "set ?ids = row_id ` {r' \<in> set ?rows. inFile pid fname r'}"
    by (auto simp: inProject_def inFile_def split: option.splits)
  have f0: "faults w (length (trace w)) = None" "faults w (Suc (length (trace w))) = None"
    using assms(3) by simp_all
  show ?thesis
  proof (cases "?ids = []")
    case True
    then have e: "row_id ` {r' \<in> set ?rows. inFile pid fname r'} = {}" using ids by simp
    have "filter (\<lambda>r. row_id r \<notin> row_id ` {r' \<in> set ?rows. inFile pid fname r'}) ?rows = ?rows"
      unfolding e by (rule filter_True) simp
    moreover have "deleteMemoryBankContentByFile pid fname w = (Inr True, w\<lparr>trace := trace w @ [ChunksGet]\<rparr>)"
      using assms(1,2) f0 True
      by (simp add: deleteMemoryBankContentByFile_def ensureInitialized_def request_def Let_def)
    ultimately show ?thesis using assms(1,2) by simp
  next
    case False
    then have ne: "filter (inProject pid) ?rows \<noteq> []" by (auto simp: filter_empty_conv)
    have "deleteMemoryBankContentByFile pid fname w =
            (Inr True, w\<lparr>trace := trace w @ [ChunksGet, ChunksDelete ?ids],
                          chunksCollection := filter (\<lambda>r. row_id r \<notin> set ?ids) ?rows\<rparr>)"
      using assms(1,2) f0 False ne
      by (simp add: deleteMemoryBankContentByFile_def ensureInitialized_def request_def Let_def)
    then show ?thesis using ids assms(1,2) by simp
  qed
qed

lemma updateLastModified_ok:
  assumes "dbIsInitialized w" "dbHandles w" "pid \<noteq> []" "\<forall>n\<ge>length (trace w). faults w n = None"
  shows "\<exists>w'. updateLastModified pid w = (Inr (), w') \<and> chunksCollection w' = chunksCollection w"
proof -
  have f0: "faults w (length (trace w)) = None" "faults w (Suc (length (trace w))) = None"
    using assms(4) by simp_all
  show ?thesis
    using assms(1,2,3) f0
    by (auto simp: updateLastModified_def updateProjectLastModified_def findProjectById_def
          ensureInitialized_def request_def split: list.splits option.splits)
qed

text \<open>
  C10. For an existing project, a non-empty file name and a non-empty content that
  chunks to nothing, when no request to the store throws, \<open>updateFileContent\<close> succeeds
  and no chunk of the file is left in the store; nothing is added, and where the rows'
  ids are distinct the rows of other files are all kept.
\<close>

theorem updateFileContent_zero_chunks_clears_file:
  assumes pe: "projectExists pid w = (Inr True, w1)"
    and args: "fname \<noteq> []" "content \<noteq> []"
    and chunks: "chunkText es content = Some (Inr [])"
    and healthy: "\<forall>n\<ge>length (trace w). faults w n = None"
  shows "\<exists>w'. updateFileContent es pid fname content w = Some (Inr (), w') \<and>
           filter (inFile pid fname) (chunksCollection w') = [] \<and>
           set (chunksCollection w') \<subseteq> set (chunksCollection w) \<and>
           (distinct (map row_id (chunksCollection w)) \<longrightarrow>
              chunksCollection w' = filter (\<lambda>r. \<not> inFile pid fname r) (chunksCollection w))"
proof -
  note p = projectExists_True[OF pe]
  have w1: "dbIsInitialized w1" "dbHandles w1" "\<forall>n\<ge>length (trace w1). faults w1 n = None"
    "chunksCollection w1 = chunksCollection w"
    using p healthy by simp_all
  let ?rows = "chunksCollection w"
  let ?kept = "filter (\<lambda>r. row_id r \<notin> row_id ` {r' \<in> set ?rows. inFile pid fname r'}) ?rows"
  from deleteMemoryBankContentByFile_ok[OF w1(1,2,3), of pid fname] obtain w2 where
    d: "deleteMemoryBankContentByFile pid fname w1 = (Inr True, w2)"
    and rows2: "chunksCollection w2 = ?kept"
    and w2: "dbIsInitialized w2" "dbHandles w2" "faults w2 = faults w1"
      "length (trace w1) \<le> length (trace w2)"
    using w1(4) by auto
  have "\<forall>n\<ge>length (trace w2). faults w2 n = None" using w2(3,4) w1(3) by simp
  from updateLastModified_ok[OF w2(1,2) p(5) this] obtain w3 where
    u: "updateLastModified pid w2 = (Inr (), w3)" and rows3: "chunksCollection w3 = chunksCollection w2"
    by blast
  have run: "updateFileContent es pid fname content w = Some (Inr (), w3)"
    using pe args chunks d u by (simp add: updateFileContent_def)
  have cleared: "filter (inFile pid fname) ?kept = []"
    by (auto simp: filter_empty_conv)
  have sub: "set ?kept \<subseteq> set ?rows" by auto
  have exact: "distinct (map row_id ?rows) \<longrightarrow> ?kept = filter (\<lambda>r. \<not> inFile pid fname r) ?rows"
  proof
    assume dist: "distinct (map row_id ?rows)"
    have "\<And>r. r \<in> set ?rows \<Longrightarrow>
            (row_id r \<notin> row_id ` {r' \<in> set ?rows. inFile pid fname r'}) = (\<not> inFile pid fname r)"
      using dist by (auto simp: distinct_map inj_on_def)
    then show "?kept = filter (\<lambda>r. \<not> inFile pid fname r) ?rows"
      by (intro filter_cong) auto
  qed
  show ?thesis using run rows2 rows3 cleared sub exact by auto
qed

lemma chunkText_blank:
  "chunkText embeddingService ''   '' = Some (Inr [])"
  by (simp add: chunkText_def embeddingService_def defaultSeparators_def js_split_def
        bertLikeTokenizer_def isWhiteSpace_def js_trim_def Let_def)

theorem updateFileContent_zero_chunks_clears_file_witness:
  "projectExists demoProjectId (demoWorld keywordRows) =
     (Inr True, (demoWorld keywordRows)\<lparr>trace := [ProjectsGet demoProjectId]\<rparr>) \<and>
   ''fileA.md'' \<noteq> [] \<and> ''   '' \<noteq> [] \<and>
   chunkText embeddingService ''   '' = Some (Inr []) \<and>
   faults (demoWorld keywordRows) = (\<lambda>n. None) \<and>
   (\<exists>w'. updateFileContent embeddingService demoProjectId ''fileA.md'' ''   '' (demoWorld keywordRows)
            = Some (Inr (), w') \<and>
      filter (inFile demoProjectId ''fileA.md'') (chunksCollection w') = [] \<and>
      set (chunksCollection w') \<subseteq> set (chunksCollection (demoWorld keywordRows)))"
proof -
  have h2: "''fileA.md'' \<noteq> []" and h3: "''   '' \<noteq> []" by simp_all
  have h5: "\<forall>n\<ge>length (trace (demoWorld keywordRows)). faults (demoWorld keywordRows) n = None"
    by (simp add: demoWorld_fields)
  from updateFileContent_zero_chunks_clears_file
    [OF projectExists_demoWorld[of keywordRows] h2 h3 chunkText_blank h5]
  show ?thesis using projectExists_demoWorld chunkText_blank by (auto simp: demoWorld_fields)
qed

section \<open>Searching\<close>







section \<open>Properties of searching\<close>







lemma semanticSearchChunks_eq:
  assumes "dbIsInitialized w" "dbHandles w"
  shows "semanticSearchChunks pid queryEmbedding topK fileFilter w =
     ((case faults w (length (trace w)) of
         Some msg \<Rightarrow> Inl (McpError InternalError (DbError SemanticSearch (External msg)))
       | None \<Rightarrow>
           Inr (List.map_filter queryRowToResult
                  (chromaQuery w queryEmbedding topK (whereClause pid fileFilter)))),
      w\<lparr>trace := trace w @ [ChunksQuery]\<rparr>)"
  using assms
  by (auto simp: semanticSearchChunks_def ensureInitialized_def request_eq chromaQuery_def
        split: option.splits)

lemma chromaQuery_trace: "chromaQuery (w\<lparr>trace := t\<rparr>) = chromaQuery w"
  by (intro ext) (simp add: chromaQuery_def)

lemma chromaQuery_distance:
  "row \<in> set (chromaQuery w q n wh) \<Longrightarrow>
   \<exists>r\<in>set (chunksCollection w). wh r \<and> q_distance row = Some (distanceFn w q (row_embedding r)) \<and>
      q_id row = row_id r \<and> q_metadata row = row_metadata r \<and> q_document row = row_document r"
  by (auto simp: chromaQuery_def dest!: in_set_takeD)

lemma scoreCompare_order:
  "\<forall>a b. scoreCompare a b \<le> 0 \<or> scoreCompare b a \<le> 0"
  "\<forall>a b c. scoreCompare a b \<le> 0 \<longrightarrow> scoreCompare b c \<le> 0 \<longrightarrow> scoreCompare a c \<le> 0"
  by (auto simp: scoreCompare_def split: option.splits)

lemma search_semantic_run:
  assumes "search es pid query ''semantic'' topK fileFilter w = (Inr results, w')"
  shows "\<exists>queryEmbedding. fst (generateEmbedding es query w) = Inr queryEmbedding \<and>
           results = js_sort scoreCompare
             (map toSearchResult
                (List.map_filter queryRowToResult
                   (chromaQuery w queryEmbedding topK (whereClause pid fileFilter))))"
proof -
  obtain r w1 where pe: "projectExists pid w = (r, w1)" by (cases "projectExists pid w")
  have r: "r = Inr True"
    using assms pe by (cases r) (auto simp: search_def split: bool.splits)
  note p = projectExists_True[OF pe[unfolded r]]
  from assms pe r obtain queryEmbedding w2 chunks where
    g: "generateEmbedding es query w1 = (Inr queryEmbedding, w2)"
    and s: "semanticSearchChunks pid queryEmbedding topK fileFilter w2 = (Inr chunks, w')"
    and res: "results = js_sort scoreCompare (map toSearchResult chunks)"
    by (auto simp: search_def split: if_splits sum.splits prod.splits)
  from generateEmbedding_state[OF g] p(1) obtain t where w2: "w2 = w\<lparr>trace := t\<rparr>"
    by auto
  have init: "dbIsInitialized (w\<lparr>trace := t\<rparr>)" "dbHandles (w\<lparr>trace := t\<rparr>)"
    using p by simp_all
  from s[unfolded w2] have "chunks = List.map_filter queryRowToResult
                   (chromaQuery w queryEmbedding topK (whereClause pid fileFilter))"
    unfolding semanticSearchChunks_eq[OF init] chromaQuery_trace by (auto split: option.splits)
  moreover have "fst (generateEmbedding es query w) = Inr queryEmbedding"
    using g fst_generateEmbedding[of es query w w1] by simp
  ultimately show ?thesis using res by blast
qed

text \<open>
  C4. The results of a semantic-mode search are the rows the store's nearest-neighbour
  query reports for the embedded query, each with the reported distance as its score,
  unchanged, and they are in ascending order of score. For the example, three results
  asked over five stored chunks at distances 0.1, 0.9, 0.3, 0.05 and 0.5, the scores come
  back as 0.05, 0.1, 0.3.
\<close>

theorem semantic_search_ascending_distance:
  assumes run: "search es pid query ''semantic'' topK fileFilter w = (Inr results, w')"
  shows "(\<exists>queryEmbedding. fst (generateEmbedding es query w) = Inr queryEmbedding \<and>
            mset results =
              mset (map toSearchResult
                      (List.map_filter queryRowToResult
                         (chromaQuery w queryEmbedding topK (whereClause pid fileFilter)))) \<and>
            (\<forall>r\<in>set results. \<exists>row\<in>set (chunksCollection w).
                sr_score r = Some (distanceFn w queryEmbedding (row_embedding row)) \<and>
                row_document row = Some (sr_text r))) \<and>
         sorted_wrt (\<lambda>a b. scoreCompare a b \<le> 0) results \<and>
         sorted (map (\<lambda>r. the (sr_score r)) results) \<and>
         map sr_score
           (projr (fst (search embeddingService demoProjectId ''q'' ''semantic'' 3 None
                          (demoWorld semanticRows))))
           = [Some (5 / 100), Some (1 / 10), Some (3 / 10)]"
proof -
  from search_semantic_run[OF run] obtain queryEmbedding where
    g: "fst (generateEmbedding es query w) = Inr queryEmbedding"
    and res: "results = js_sort scoreCompare
             (map toSearchResult
                (List.map_filter queryRowToResult
                   (chromaQuery w queryEmbedding topK (whereClause pid fileFilter))))"
    by blast
  let ?rows = "chromaQuery w queryEmbedding topK (whereClause pid fileFilter)"
  have m: "mset results = mset (map toSearchResult (List.map_filter queryRowToResult ?rows))"
    unfolding res by (rule mset_js_sort)
  have d: "\<forall>r\<in>set results. \<exists>row\<in>set (chunksCollection w).
                sr_score r = Some (distanceFn w queryEmbedding (row_embedding row)) \<and>
                row_document row = Some (sr_text r)"
  proof
    fix r assume "r \<in> set results"
    then have "r \<in> set (map toSearchResult (List.map_filter queryRowToResult ?rows))"
      unfolding res by (simp add: set_js_sort)
    then obtain qrow c where q: "qrow \<in> set ?rows" and c: "queryRowToResult qrow = Some c"
      and r: "r = toSearchResult c"
      by (auto simp: List.map_filter_def)
    from chromaQuery_distance[OF q] obtain row where
      "row \<in> set (chunksCollection w)"
      "q_distance qrow = Some (distanceFn w queryEmbedding (row_embedding row))"
      "q_document qrow = row_document row" by blast
    then show "\<exists>row\<in>set (chunksCollection w).
                sr_score r = Some (distanceFn w queryEmbedding (row_embedding row)) \<and>
                row_document row = Some (sr_text r)"
      using c r by (auto simp: queryRowToResult_def toSearchResult_def split: option.splits)
  qed
  have s: "sorted_wrt (\<lambda>a b. scoreCompare a b \<le> 0) results"
    unfolding res by (rule sorted_js_sort[OF scoreCompare_order])
  have some: "\<forall>r\<in>set results. \<exists>x. sr_score r = Some x" using d by blast
  have s2: "sorted (map (\<lambda>r. the (sr_score r)) results)"
    unfolding sorted_map
  proof (rule sorted_wrt_mono_rel[OF _ s])
    fix a b assume "a \<in> set results" "b \<in> set results" "scoreCompare a b \<le> 0"
    moreover from this some obtain x y where "sr_score a = Some x" "sr_score b = Some y"
      by blast
    ultimately show "the (sr_score a) \<le> the (sr_score b)"
      by (simp add: scoreCompare_def)
  qed
  have ex: "map sr_score
           (projr (fst (search embeddingService demoProjectId ''q'' ''semantic'' 3 None
                          (demoWorld semanticRows))))
           = [Some (5 / 100), Some (1 / 10), Some (3 / 10)]"
    by (simp add: search_def projectExists_demoWorld)
       (simp add: generateEmbedding_def embeddingService_def semanticSearchChunks_def
          ensureInitialized_def request_def chromaQuery_def demoWorld_def semanticRows_def
          chunkRow_def whereClause_def ipDistance_def List.map_filter_simps queryRowToResult_def
          toSearchResult_def js_sort_def scoreCompare_def)
  show ?thesis using g m d s s2 ex by blast
qed

lemma search_semantic_example:
  "search embeddingService demoProjectId ''q'' ''semantic'' 3 None (demoWorld semanticRows) =
     (Inr [\<lparr>sr_text = ''four'', sr_fileName = ''fileB.md'', sr_chunkIndex = 0, sr_score = Some (1 / 20)\<rparr>,
           \<lparr>sr_text = ''one'', sr_fileName = ''fileA.md'', sr_chunkIndex = 0, sr_score = Some (1 / 10)\<rparr>,
           \<lparr>sr_text = ''three'', sr_fileName = ''fileA.md'', sr_chunkIndex = 2, sr_score = Some (3 / 10)\<rparr>],
      (demoWorld semanticRows)\<lparr>trace := [ProjectsGet demoProjectId, ExtractorCall ''q'', ChunksQuery]\<rparr>)"
  by (simp add: search_def projectExists_demoWorld)
     (simp add: generateEmbedding_def embeddingService_def semanticSearchChunks_def
        ensureInitialized_def request_def chromaQuery_def demoWorld_def semanticRows_def
        chunkRow_def whereClause_def ipDistance_def List.map_filter_simps queryRowToResult_def
        toSearchResult_def js_sort_def scoreCompare_def)

theorem semantic_search_ascending_distance_witness:
  "search embeddingService demoProjectId ''q'' ''semantic'' 3 None (demoWorld semanticRows) =
     (Inr [\<lparr>sr_text = ''four'', sr_fileName = ''fileB.md'', sr_chunkIndex = 0, sr_score = Some (1 / 20)\<rparr>,
           \<lparr>sr_text = ''one'', sr_fileName = ''fileA.md'', sr_chunkIndex = 0, sr_score = Some (1 / 10)\<rparr>,
           \<lparr>sr_text = ''three'', sr_fileName = ''fileA.md'', sr_chunkIndex = 2, sr_score = Some (3 / 10)\<rparr>],
      (demoWorld semanticRows)\<lparr>trace := [ProjectsGet demoProjectId, ExtractorCall ''q'', ChunksQuery]\<rparr>) \<and>
   sorted (map (\<lambda>r. the (sr_score r))
     [\<lparr>sr_text = ''four'', sr_fileName = ''fileB.md'', sr_chunkIndex = 0, sr_score = Some (1 / 20)\<rparr>,
      \<lparr>sr_text = ''one'', sr_fileName = ''fileA.md'', sr_chunkIndex = 0, sr_score = Some (1 / 10)\<rparr>,
      \<lparr>sr_text = ''three'', sr_fileName = ''fileA.md'', sr_chunkIndex = 2, sr_score = Some (3 / 10)\<rparr>])"
proof -
  note t = semantic_search_ascending_distance[OF search_semantic_example]
  show ?thesis
    by (intro conjI search_semantic_example t[THEN conjunct2, THEN conjunct2, THEN conjunct1])
qed

section \<open>Rejected searches\<close>

lemma projectExists_unknown:
  assumes "pid \<notin> fst ` set (projectsCollection w)" "pid \<noteq> []"
    and "dbIsInitialized w" "dbHandles w" "faults w (length (trace w)) = None"
  shows "projectExists pid w = (Inr False, w\<lparr>trace := trace w @ [ProjectsGet pid]\<rparr>)"
proof -
  have "filter (\<lambda>r. fst r = pid) (projectsCollection w) = []"
    using assms(1) by (auto simp: filter_empty_conv)
  then show ?thesis
    using assms(2-)
    by (simp add: projectExists_def findProjectById_def ensureInitialized_def request_def)
qed

lemma isUuid_not_empty: "isUuid s \<Longrightarrow> s \<noteq> []"
  by (auto simp: isUuid_def)

lemma parseSearchArgs_Some:
  assumes "parseSearchArgs args = Some a"
  shows "projectId_arg a = arg_projectId args" and "isUuid (arg_projectId args)"
    and "query_arg a = js_trim (arg_query args)" and "query_arg a \<noteq> []"
    and "searchType_arg a = ''semantic'' \<or> searchType_arg a = ''keyword''"
    and "1 \<le> topK_arg a" and "topK_arg a \<le> 20"
  using assms
  by (auto simp: parseSearchArgs_def split: if_splits option.splits)

text \<open>
  C8. A call of the search tool whose arguments are malformed (a search type other than the
  two modes, a query that is empty once trimmed, a \<open>topK\<close> outside 1 to 20) fails the
  tool's schema: it is rejected with \<open>InvalidParams\<close> and the world is as before, no
  external call made. A call with well-formed arguments that names a project the store
  does not hold raises the error "Project with ID ... not found." when the only call made
  is the project lookup. \<open>SearchService.search\<close> itself, after the project lookup, rejects
  an empty query, an empty or unsupported search type and \<open>topK = 0\<close> with
  \<open>InvalidParams\<close> before any other call.
\<close>

theorem search_rejects_malformed_and_unknown:
  "((\<exists>t. arg_searchType args = Some t \<and> t \<noteq> ''semantic'' \<and> t \<noteq> ''keyword'') \<or>
    js_trim (arg_query args) = [] \<or>
    (\<exists>k. arg_topK args = Some k \<and> (k < 1 \<or> 20 < k)) \<longrightarrow>
      memoryBankSearchTool es args w = (Inl (McpError InvalidParams InvalidToolArguments), w)) \<and>
   (parseSearchArgs args \<noteq> None \<and> arg_projectId args \<notin> fst ` set (projectsCollection w) \<and>
    dbIsInitialized w \<and> dbHandles w \<and> faults w (length (trace w)) = None \<longrightarrow>
      memoryBankSearchTool es args w =
        (Inl (McpError InvalidParams (ProjectNotFound (arg_projectId args))),
         w\<lparr>trace := trace w @ [ProjectsGet (arg_projectId args)]\<rparr>)) \<and>
   (projectExists pid w = (Inr True, w1) \<and>
    (query = [] \<or> topK = 0 \<or> (searchType \<noteq> ''semantic'' \<and> searchType \<noteq> ''keyword'')) \<longrightarrow>
      (\<exists>m. search es pid query searchType topK fileFilter w = (Inl (McpError InvalidParams m), w1)) \<and>
      w1 = w\<lparr>trace := trace w @ [ProjectsGet pid]\<rparr>)"
proof (intro conjI impI)
  assume "(\<exists>t. arg_searchType args = Some t \<and> t \<noteq> ''semantic'' \<and> t \<noteq> ''keyword'') \<or>
    js_trim (arg_query args) = [] \<or>
    (\<exists>k. arg_topK args = Some k \<and> (k < 1 \<or> 20 < k))"
  then have "parseSearchArgs args = None"
    by (auto simp: parseSearchArgs_def)
  then show "memoryBankSearchTool es args w = (Inl (McpError InvalidParams InvalidToolArguments), w)"
    by (simp add: memoryBankSearchTool_def)
next
  assume h: "parseSearchArgs args \<noteq> None \<and> arg_projectId args \<notin> fst ` set (projectsCollection w) \<and>
    dbIsInitialized w \<and> dbHandles w \<and> faults w (length (trace w)) = None"
  then obtain a where a: "parseSearchArgs args = Some a" by auto
  note p = parseSearchArgs_Some[OF a]
  have "projectExists (arg_projectId args) w =
          (Inr False, w\<lparr>trace := trace w @ [ProjectsGet (arg_projectId args)]\<rparr>)"
    using h isUuid_not_empty[OF p(2)] by (intro projectExists_unknown) simp_all
  then show "memoryBankSearchTool es args w =
        (Inl (McpError InvalidParams (ProjectNotFound (arg_projectId args))),
         w\<lparr>trace := trace w @ [ProjectsGet (arg_projectId args)]\<rparr>)"
    using a p(1) by (simp add: memoryBankSearchTool_def search_def)
next
  assume h: "projectExists pid w = (Inr True, w1) \<and>
    (query = [] \<or> topK = 0 \<or> (searchType \<noteq> ''semantic'' \<and> searchType \<noteq> ''keyword''))"
  then show "\<exists>m. search es pid query searchType topK fileFilter w = (Inl (McpError InvalidParams m), w1)"
    by (auto simp: search_def)
next
  assume h: "projectExists pid w = (Inr True, w1) \<and>
    (query = [] \<or> topK = 0 \<or> (searchType \<noteq> ''semantic'' \<and> searchType \<noteq> ''keyword''))"
  then show "w1 = w\<lparr>trace := trace w @ [ProjectsGet pid]\<rparr>"
    using projectExists_True(1) by blast
qed

lemma isUuid_unknown: "isUuid ''00000000-0000-4000-8000-000000000000''"
  by code_simp

theorem search_rejects_malformed_and_unknown_witness:
  "arg_topK \<lparr>arg_projectId = demoProjectId, arg_query = ''hello'', arg_searchType = Some ''keyword'',
             arg_topK = Some 25, arg_fileFilter = None\<rparr> = Some 25 \<and> (20::int) < 25 \<and>
   memoryBankSearchTool embeddingService
     \<lparr>arg_projectId = demoProjectId, arg_query = ''hello'', arg_searchType = Some ''keyword'',
      arg_topK = Some 25, arg_fileFilter = None\<rparr> (demoWorld keywordRows) =
     (Inl (McpError InvalidParams InvalidToolArguments), demoWorld keywordRows) \<and>
   memoryBankSearchTool embeddingService
     \<lparr>arg_projectId = ''00000000-0000-4000-8000-000000000000'', arg_query = ''hello'',
      arg_searchType = None, arg_topK = None, arg_fileFilter = None\<rparr> (demoWorld keywordRows) =
     (Inl (McpError InvalidParams (ProjectNotFound ''00000000-0000-4000-8000-000000000000'')),
      (demoWorld keywordRows)\<lparr>trace := [ProjectsGet ''00000000-0000-4000-8000-000000000000'']\<rparr>) \<and>
   projectExists demoProjectId (demoWorld keywordRows) =
     (Inr True, (demoWorld keywordRows)\<lparr>trace := [ProjectsGet demoProjectId]\<rparr>) \<and>
   (\<exists>m. search embeddingService demoProjectId ''hello'' ''fuzzy'' 5 None (demoWorld keywordRows) =
      (Inl (McpError InvalidParams m), (demoWorld keywordRows)\<lparr>trace := [ProjectsGet demoProjectId]\<rparr>))"
proof -
  let ?bad = "\<lparr>arg_projectId = demoProjectId, arg_query = ''hello'', arg_searchType = Some ''keyword'',
             arg_topK = Some (25::int), arg_fileFilter = None::string list option\<rparr>"
  let ?unknown = "\<lparr>arg_projectId = ''00000000-0000-4000-8000-000000000000'', arg_query = ''hello'',
      arg_searchType = None::string option, arg_topK = None::int option,
      arg_fileFilter = None::string list option\<rparr>"
  note t = search_rejects_malformed_and_unknown
  have 1: "memoryBankSearchTool embeddingService ?bad (demoWorld keywordRows) =
     (Inl (McpError InvalidParams InvalidToolArguments), demoWorld keywordRows)"
    by (rule t[THEN conjunct1, THEN mp]) simp
  have parsed: "parseSearchArgs ?unknown \<noteq> None"
    using isUuid_unknown by (simp add: parseSearchArgs_def js_trim_def isWhiteSpace_def)
  have absent: "arg_projectId ?unknown \<notin> fst ` set (projectsCollection (demoWorld keywordRows))"
    by (simp add: demoWorld_def demoProjectId_def)
  have 2: "memoryBankSearchTool embeddingService ?unknown (demoWorld keywordRows) =
     (Inl (McpError InvalidParams (ProjectNotFound (arg_projectId ?unknown))),
      (demoWorld keywordRows)\<lparr>trace := trace (demoWorld keywordRows) @ [ProjectsGet (arg_projectId ?unknown)]\<rparr>)"
    by (rule t[THEN conjunct2, THEN conjunct1, THEN mp])
       (use parsed absent in \<open>simp add: demoWorld_fields\<close>)
  have 3: "\<exists>m. search embeddingService demoProjectId ''hello'' ''fuzzy'' 5 None (demoWorld keywordRows) =
      (Inl (McpError InvalidParams m), (demoWorld keywordRows)\<lparr>trace := [ProjectsGet demoProjectId]\<rparr>)"
    by (rule t[THEN conjunct2, THEN conjunct2, THEN mp, THEN conjunct1])
       (simp add: projectExists_demoWorld)
  show ?thesis using 1 2 3 projectExists_demoWorld[of keywordRows] by (simp add: demoWorld_fields)
qed

end
